theory Spec2Isabelle
  imports Complex_Main "HOL-Library.Sublist"
begin

section \<open>Strings and paths\<close>

text \<open>
  Python strings are modelled as \<^typ>\<open>string\<close>. \<^verbatim>\<open>str.lower()\<close> is modelled on the
  ASCII letters; every other character is left as it is.
\<close>

definition lower_char :: "char \<Rightarrow> char" where
  "lower_char c =
     (let n = (of_char c :: nat) in if 65 \<le> n \<and> n \<le> 90 then char_of (n + 32) else c)"

definition lower :: "string \<Rightarrow> string" where
  "lower s = map lower_char s"

text \<open>\<^verbatim>\<open>s.startswith(p)\<close>\<close>

definition startswith :: "string \<Rightarrow> string \<Rightarrow> bool" where
  "startswith s p = (take (length p) s = p)"

text \<open>\<^verbatim>\<open>s.rstrip('/')\<close>\<close>

definition rstrip_sep :: "string \<Rightarrow> string" where
  "rstrip_sep s = rev (dropWhile (\<lambda>c. c = CHR ''/'') (rev s))"

text \<open>
  \<^verbatim>\<open>os.path.dirname\<close> of \<^verbatim>\<open>posixpath\<close>:
  \<^verbatim>\<open>
  i = p.rfind('/') + 1
  head = p[:i]
  if head and head != '/' * len(head):
      head = head.rstrip('/')
  return head
  \<close>
\<close>

definition path_head :: "string \<Rightarrow> string" where
  "path_head p = rev (dropWhile (\<lambda>c. c \<noteq> CHR ''/'') (rev p))"

definition dirname :: "string \<Rightarrow> string" where
  "dirname p =
     (let head = path_head p in
      if head \<noteq> [] \<and> head \<noteq> replicate (length head) (CHR ''/'')
      then rstrip_sep head else head)"

section \<open>The revision index\<close>

text \<open>
  \<^verbatim>\<open>_rev_dict_cache\<close> is a dict from lower-case Dropbox paths to revs; a rev is the
  string \<^verbatim>\<open>'folder'\<close> or a revision string of the server. Writing the index to its file
  (\<^verbatim>\<open>_save_rev_dict_to_file\<close>, whose failures are only logged) does not change the
  cache and is left out.
\<close>

type_synonym rev_dict = "string \<rightharpoonup> string"

definition get_local_rev :: "rev_dict \<Rightarrow> string \<Rightarrow> string option" where
  "get_local_rev idx dbx_path = idx (lower dbx_path)"

text \<open>
  The loop of \<^verbatim>\<open>set_local_rev\<close> that sets all parent revs:
  \<^verbatim>\<open>
  dirname = osp.dirname(dbx_path)
  while dirname != '/':
      self._rev_dict_cache[dirname] = 'folder'
      dirname = osp.dirname(dirname)
  \<close>
  For a path such as \<^verbatim>\<open>'a'\<close> or \<^verbatim>\<open>'//a'\<close> the loop never reaches \<^verbatim>\<open>'/'\<close>; not
  returning is the value \<open>None\<close>.
\<close>

partial_function (option) set_parent_revs :: "string \<Rightarrow> rev_dict \<Rightarrow> rev_dict option" where
  "set_parent_revs d idx =
     (if d = ''/'' then Some idx
      else set_parent_revs (dirname d) (idx(d \<mapsto> ''folder'')))"

declare set_parent_revs.simps [code]

text \<open>
  \<^verbatim>\<open>
  def set_local_rev(self, dbx_path, rev):
      dbx_path = dbx_path.lower()
      if rev == self._rev_dict_cache.get(dbx_path, None):
          return
      if rev is None:
          for path in dict(self._rev_dict_cache):
              if path.startswith(dbx_path):
                  self._rev_dict_cache.pop(path, None)
      else:
          self._rev_dict_cache[dbx_path] = rev
          (the loop above)
  \<close>
\<close>

definition set_local_rev :: "string \<Rightarrow> string option \<Rightarrow> rev_dict \<Rightarrow> rev_dict option" where
  "set_local_rev dbx_path new_rev idx =
     (let p = lower dbx_path in
      if new_rev = idx p then Some idx
      else case new_rev of
        None \<Rightarrow> Some (\<lambda>path. if startswith path p then None else idx path)
      | Some r \<Rightarrow> set_parent_revs (dirname p) (idx(p \<mapsto> r)))"





subsection \<open>Notions used to state properties of the index\<close>



text \<open>
  An absolute Dropbox path: it begins with exactly one separator. These are the paths for
  which the loop of \<^verbatim>\<open>set_local_rev\<close> returns.
\<close>

fun dbx_path_ok :: "string \<Rightarrow> bool" where
  "dbx_path_ok [] = False"
| "dbx_path_ok [c] = (c = CHR ''/'')"
| "dbx_path_ok (c # d # cs) = (c = CHR ''/'' \<and> d \<noteq> CHR ''/'')"




section \<open>Local file events\<close>

text \<open>
  The events of \<^verbatim>\<open>watchdog\<close>: eight classes, each with a \<^verbatim>\<open>src_path\<close>; the moved events
  also have a \<^verbatim>\<open>dest_path\<close>.
\<close>

datatype event_types =
  EVENT_TYPE_MOVED | EVENT_TYPE_DELETED | EVENT_TYPE_CREATED | EVENT_TYPE_MODIFIED

datatype event =
    DirCreatedEvent string | FileCreatedEvent string
  | DirModifiedEvent string | FileModifiedEvent string
  | DirDeletedEvent string | FileDeletedEvent string
  | DirMovedEvent string string | FileMovedEvent string string

fun event_type :: "event \<Rightarrow> event_types" where
  "event_type (DirCreatedEvent p) = EVENT_TYPE_CREATED"
| "event_type (FileCreatedEvent p) = EVENT_TYPE_CREATED"
| "event_type (DirModifiedEvent p) = EVENT_TYPE_MODIFIED"
| "event_type (FileModifiedEvent p) = EVENT_TYPE_MODIFIED"
| "event_type (DirDeletedEvent p) = EVENT_TYPE_DELETED"
| "event_type (FileDeletedEvent p) = EVENT_TYPE_DELETED"
| "event_type (DirMovedEvent p d) = EVENT_TYPE_MOVED"
| "event_type (FileMovedEvent p d) = EVENT_TYPE_MOVED"

fun is_directory :: "event \<Rightarrow> bool" where
  "is_directory (DirCreatedEvent p) = True"
| "is_directory (FileCreatedEvent p) = False"
| "is_directory (DirModifiedEvent p) = True"
| "is_directory (FileModifiedEvent p) = False"
| "is_directory (DirDeletedEvent p) = True"
| "is_directory (FileDeletedEvent p) = False"
| "is_directory (DirMovedEvent p d) = True"
| "is_directory (FileMovedEvent p d) = False"

fun src_path :: "event \<Rightarrow> string" where
  "src_path (DirCreatedEvent p) = p"
| "src_path (FileCreatedEvent p) = p"
| "src_path (DirModifiedEvent p) = p"
| "src_path (FileModifiedEvent p) = p"
| "src_path (DirDeletedEvent p) = p"
| "src_path (FileDeletedEvent p) = p"
| "src_path (DirMovedEvent p d) = p"
| "src_path (FileMovedEvent p d) = p"

text \<open>
  \<^verbatim>\<open>get_dest_path(event)\<close> is \<^verbatim>\<open>getattr(event, 'dest_path', event.src_path)\<close>.
\<close>

fun get_dest_path :: "event \<Rightarrow> string" where
  "get_dest_path (DirMovedEvent p d) = d"
| "get_dest_path (FileMovedEvent p d) = d"
| "get_dest_path e = src_path e"

section \<open>More of \<^verbatim>\<open>os.path\<close>\<close>

text \<open>\<^verbatim>\<open>s.lstrip('/')\<close>, \<^verbatim>\<open>os.path.basename\<close> and \<^verbatim>\<open>os.path.join\<close> of two paths.\<close>

definition lstrip_sep :: "string \<Rightarrow> string" where
  "lstrip_sep s = dropWhile (\<lambda>c. c = CHR ''/'') s"

definition basename :: "string \<Rightarrow> string" where
  "basename p = rev (takeWhile (\<lambda>c. c \<noteq> CHR ''/'') (rev p))"

definition join_path :: "string \<Rightarrow> string \<Rightarrow> string" where
  "join_path a b =
     (if startswith b ''/'' then b
      else if a = [] \<or> last a = CHR ''/'' then a @ b
      else a @ ''/'' @ b)"

text \<open>
  \<^verbatim>\<open>os.path.splitext\<close>: the extension starts at the last dot of the last component, unless
  that component has only dots before it.
  \<^verbatim>\<open>
  sepIndex = p.rfind(sep); dotIndex = p.rfind(extsep)
  if dotIndex > sepIndex:
      filenameIndex = sepIndex + 1
      while filenameIndex < dotIndex:
          if p[filenameIndex:filenameIndex+1] != extsep:
              return p[:dotIndex], p[dotIndex:]
          filenameIndex += 1
  return p, p[:0]
  \<close>
\<close>

definition splitext :: "string \<Rightarrow> string \<times> string" where
  "splitext p =
     (let name = basename p;
          ext = rev (takeWhile (\<lambda>c. c \<noteq> CHR ''.'') (rev name));
          stem = take (length name - length ext - 1) name
      in if CHR ''.'' \<in> set name \<and> filter (\<lambda>c. c \<noteq> CHR ''.'') stem \<noteq> []
         then (take (length p - length ext - 1) p, CHR ''.'' # ext)
         else (p, []))"

section \<open>The state of \<^verbatim>\<open>UpDownSync\<close>\<close>

text \<open>
  Exceptions are values. \<^verbatim>\<open>SyncError\<close> and its subclasses carry the \<^verbatim>\<open>dbx_path\<close> and the
  \<^verbatim>\<open>local_path\<close> of the item (either may be \<^verbatim>\<open>None\<close>). \<open>OtherError\<close> stands for every
  exception that is neither a \<^verbatim>\<open>SyncError\<close> nor one of the built-in exceptions named
  here: a connection error, another \<^verbatim>\<open>MaestralApiError\<close>, an \<^verbatim>\<open>OSError\<close>.
\<close>

datatype sync_error_kind = NotFoundError | PathError | ExcludedItemError | GenericSyncError

datatype exn =
    SyncError (exc_kind: sync_error_kind) (exc_dbx_path: "string option")
      (exc_local_path: "string option")
  | ValueError | AssertionError | IndexError | TypeError | FileNotFoundError | OtherError

text \<open>
  The metadata of the Dropbox SDK, with the fields that the sync code reads;
  \<^verbatim>\<open>server_modified\<close> is held as its time stamp.
\<close>

datatype metadata =
    is_file: FileMetadata (path_display: string) (path_lower: string) (md_rev: string)
      (content_hash: string) (server_modified: real)
  | is_folder: FolderMetadata (path_display: string) (path_lower: string)
  | is_deleted: DeletedMetadata (path_display: string) (path_lower: string)

text \<open>
  Time stamps are Python floats that come from \<^verbatim>\<open>time.time()\<close> and \<^verbatim>\<open>st_ctime\<close>; the code
  only compares them and takes their maximum, so they are modelled as real numbers.

  The fields are the attributes of \<^verbatim>\<open>UpDownSync\<close> and the values it keeps in the config
  and state files. The queues are lists, oldest entry first. \<^verbatim>\<open>download_errors\<close> and
  \<^verbatim>\<open>pending_downloads\<close> are \<^verbatim>\<open>SyncStateSet\<close>s. \<^verbatim>\<open>mignore_rules\<close> holds the patterns
  of the rules as they were last loaded from the mignore file. \<^verbatim>\<open>sync_errors\<close> holds
  \<^verbatim>\<open>SyncError\<close>s as triples of their kind, \<^verbatim>\<open>dbx_path\<close> and \<^verbatim>\<open>local_path\<close>: the two places
  that put an error into this queue give it both paths. The last four fields
  are the attributes of the \<^verbatim>\<open>FileEventHandler\<close>, which shares the two events
  \<^verbatim>\<open>syncing\<close> and \<^verbatim>\<open>startup\<close>, the queue of local file events and \<^verbatim>\<open>queue_downloading\<close>
  with the rest of the monitor.
\<close>

record sync_state =
  dropbox_path :: string
  excluded_items :: "string list"
  mignore_rules :: "string list"
  rev_dict_cache :: rev_dict
  last_sync_for_path :: "string \<rightharpoonup> real"
  last_sync :: real
  last_cursor :: string
  sync_errors :: "(sync_error_kind \<times> string \<times> string) list"
  download_errors :: "string set"
  pending_downloads :: "string set"
  queued_for_download :: "string list"
  queued_for_upload :: "string list"
  queue_uploading :: "string list"
  queue_downloading :: "string list"
  recent_changes :: "string list"
  syncing :: bool
  startup :: bool
  local_file_event_queue :: "event list"
  renamed_items_cache :: "string list"

text \<open>
  \<^verbatim>\<open>
  def get_last_sync_for_path(self, dbx_path):
      dbx_path = dbx_path.lower()
      return max(self._last_sync_for_path.get(dbx_path, 0.0), self.last_sync)

  def set_last_sync_for_path(self, dbx_path, last_sync):
      dbx_path = dbx_path.lower()
      if last_sync == 0.0:
          try: del self._last_sync_for_path[dbx_path]
          except KeyError: pass
      else:
          self._last_sync_for_path[dbx_path] = last_sync
  \<close>
\<close>

definition get_last_sync_for_path :: "sync_state \<Rightarrow> string \<Rightarrow> real" where
  "get_last_sync_for_path s dbx_path =
     max (case last_sync_for_path s (lower dbx_path) of None \<Rightarrow> 0 | Some t \<Rightarrow> t) (last_sync s)"

definition set_last_sync_for_path :: "string \<Rightarrow> real \<Rightarrow> sync_state \<Rightarrow> sync_state" where
  "set_last_sync_for_path dbx_path t s =
     (if t = 0 then s\<lparr>last_sync_for_path := (last_sync_for_path s)(lower dbx_path := None)\<rparr>
      else s\<lparr>last_sync_for_path := (last_sync_for_path s)(lower dbx_path \<mapsto> t)\<rparr>)"

text \<open>\<^verbatim>\<open>get_local_rev\<close> and \<^verbatim>\<open>set_local_rev\<close> as methods, on the index held in the state.\<close>

definition local_rev :: "sync_state \<Rightarrow> string \<Rightarrow> string option" where
  "local_rev s dbx_path = get_local_rev (rev_dict_cache s) dbx_path"

definition update_local_rev :: "string \<Rightarrow> string option \<Rightarrow> sync_state \<Rightarrow> sync_state option" where
  "update_local_rev dbx_path new_rev s =
     map_option (\<lambda>idx. s\<lparr>rev_dict_cache := idx\<rparr>) (set_local_rev dbx_path new_rev (rev_dict_cache s))"

section \<open>The local disk and the Dropbox client\<close>

text \<open>
  The sync code reaches the local file system and the Dropbox servers through calls of
  the operating system, of \<^verbatim>\<open>maestral.utils.path\<close> and of the client. Their state
  is a value of an arbitrary type \<open>'w\<close>, and the calls are the fields of a record:
  \<^item> \<open>get_ctime\<close> and \<open>get_local_hash\<close>: the results of the helper functions of
    the same names (\<^verbatim>\<open>-1.0\<close> and \<^verbatim>\<open>None\<close> when there is nothing at the path, the hash
    \<^verbatim>\<open>'folder'\<close> for a directory);
  \<^item> \<open>path_exists_case_insensitive\<close>, \<open>delete\<close> (which returns whether it failed):
    \<^verbatim>\<open>maestral.utils.path\<close>;
  \<^item> \<open>isdir\<close>, \<open>isfile\<close>, \<open>listdir\<close>, \<open>makedirs\<close> (\<^verbatim>\<open>FileExistsError\<close> is caught by
    its caller), \<open>move\<close> (\<^verbatim>\<open>shutil.move\<close>);
  \<^item> \<open>download\<close>, \<open>get_metadata\<close> (with the flag \<^verbatim>\<open>include_deleted\<close>; the result is
    \<open>None\<close> when there is no item) and \<open>remove\<close> (with the \<^verbatim>\<open>parent_rev\<close>): the methods
    of the client.
  A call that can raise returns \<open>Inl\<close> of the exception.
\<close>

record 'w env =
  get_ctime :: "'w \<Rightarrow> string \<Rightarrow> real"
  get_local_hash :: "'w \<Rightarrow> string \<Rightarrow> string option"
  path_exists_case_insensitive :: "'w \<Rightarrow> string \<Rightarrow> string \<Rightarrow> string"
  isdir :: "'w \<Rightarrow> string \<Rightarrow> bool"
  isfile :: "'w \<Rightarrow> string \<Rightarrow> bool"
  listdir :: "'w \<Rightarrow> string \<Rightarrow> exn + string list"
  delete :: "string \<Rightarrow> 'w \<Rightarrow> bool \<times> 'w"
  makedirs :: "string \<Rightarrow> 'w \<Rightarrow> exn + 'w"
  move :: "string \<Rightarrow> string \<Rightarrow> 'w \<Rightarrow> exn + 'w"
  download :: "string \<Rightarrow> string \<Rightarrow> 'w \<Rightarrow> exn + metadata \<times> 'w"
  get_metadata :: "'w \<Rightarrow> string \<Rightarrow> bool \<Rightarrow> exn + metadata option"
  remove :: "string \<Rightarrow> string option \<Rightarrow> 'w \<Rightarrow> exn + 'w"

text \<open>
  \<^verbatim>\<open>
  def to_local_path(self, dbx_path):
      dbx_path = dbx_path.replace('/', osp.sep)
      dbx_path_parent, dbx_path_basename = osp.split(dbx_path)
      local_parent = path_exists_case_insensitive(dbx_path_parent, self.dropbox_path)
      if local_parent == '':
          return osp.join(self.dropbox_path, dbx_path.lstrip(osp.sep))
      else:
          return osp.join(local_parent, dbx_path_basename)
  \<close>
  The separator is \<^verbatim>\<open>'/'\<close>. \<^verbatim>\<open>osp.split\<close> returns the pair of \<open>dirname\<close> and
  \<open>basename\<close>.
\<close>

definition to_local_path :: "'w env \<Rightarrow> sync_state \<Rightarrow> 'w \<Rightarrow> string \<Rightarrow> string" where
  "to_local_path E s w dbx_path =
     (let local_parent = path_exists_case_insensitive E w (dirname dbx_path) (dropbox_path s)
      in if local_parent = [] then join_path (dropbox_path s) (lstrip_sep dbx_path)
         else join_path local_parent (basename dbx_path))"

section \<open>Conflict detection\<close>

text \<open>
  \<^verbatim>\<open>
  class Conflict(IntEnum):
      RemoteNewer = 0
      Conflict = 1
      Identical = 2
      LocalNewerOrIdentical = 2
  \<close>
  The members of an \<^verbatim>\<open>IntEnum\<close> are integers, and two names with one value are one member.
\<close>

type_synonym conflict = int

definition Conflict_RemoteNewer :: conflict where "Conflict_RemoteNewer = 0"
definition Conflict_Conflict :: conflict where "Conflict_Conflict = 1"
definition Conflict_Identical :: conflict where "Conflict_Identical = 2"
definition Conflict_LocalNewerOrIdentical :: conflict where "Conflict_LocalNewerOrIdentical = 2"

text \<open>
  The first lines of \<^verbatim>\<open>check_download_conflict\<close>:
  \<^verbatim>\<open>
  if isinstance(md, FileMetadata):
      remote_rev = md.rev; remote_hash = md.content_hash
  elif isinstance(md, FolderMetadata):
      remote_rev = 'folder'; remote_hash = 'folder'
  else:  # DeletedMetadata
      remote_rev = None; remote_hash = None
  \<close>
\<close>

fun remote_rev :: "metadata \<Rightarrow> string option" where
  "remote_rev (FileMetadata pd pl r h t) = Some r"
| "remote_rev (FolderMetadata pd pl) = Some ''folder''"
| "remote_rev (DeletedMetadata pd pl) = None"

fun remote_hash :: "metadata \<Rightarrow> string option" where
  "remote_hash (FileMetadata pd pl r h t) = Some h"
| "remote_hash (FolderMetadata pd pl) = Some ''folder''"
| "remote_hash (DeletedMetadata pd pl) = None"

text \<open>
  \<^verbatim>\<open>
  dbx_path = md.path_lower
  local_path = self.to_local_path(md.path_display)
  local_rev = self.get_local_rev(dbx_path)
  if remote_rev == local_rev:
      return Conflict.LocalNewerOrIdentical
  elif remote_rev != local_rev:
      if get_ctime(local_path) <= self.get_last_sync_for_path(dbx_path):
          return Conflict.RemoteNewer
      elif not remote_rev:
          return Conflict.LocalNewerOrIdentical
      else:
          local_hash = get_local_hash(local_path)
          if remote_hash == local_hash:
              self.set_local_rev(dbx_path, remote_rev)
              return Conflict.Identical
          else:
              return Conflict.Conflict
  \<close>
  \<^verbatim>\<open>not remote_rev\<close> holds for \<^verbatim>\<open>None\<close> and for the empty string. The result is the
  verdict and the state; it is \<open>None\<close> when \<^verbatim>\<open>set_local_rev\<close> does not return.
\<close>

definition check_download_conflict ::
  "'w env \<Rightarrow> metadata \<Rightarrow> sync_state \<Rightarrow> 'w \<Rightarrow> (conflict \<times> sync_state) option" where
  "check_download_conflict E md s w =
     (let dbx_path = path_lower md;
          local_path = to_local_path E s w (path_display md)
      in if remote_rev md = local_rev s dbx_path then Some (Conflict_LocalNewerOrIdentical, s)
         else if get_ctime E w local_path \<le> get_last_sync_for_path s dbx_path
           then Some (Conflict_RemoteNewer, s)
         else if remote_rev md = None \<or> remote_rev md = Some []
           then Some (Conflict_LocalNewerOrIdentical, s)
         else if remote_hash md = get_local_hash E w local_path
           then map_option (Pair Conflict_Identical) (update_local_rev dbx_path (remote_rev md) s)
         else Some (Conflict_Conflict, s))"

text \<open>
  Metadata as the Dropbox API delivers it: \<^verbatim>\<open>path_lower\<close> is an absolute path, and the
  rev of a file is not the empty string (the revs of the API have at least nine
  characters).
\<close>

definition metadata_ok :: "metadata \<Rightarrow> bool" where
  "metadata_ok md = (dbx_path_ok (path_lower md) \<and> remote_rev md \<noteq> Some [])"

section \<open>Paths relative to the Dropbox folder, and excluded items\<close>

text \<open>\<^verbatim>\<open>s.endswith(p)\<close>, \<^verbatim>\<open>s.split('/')\<close> and \<^verbatim>\<open>'/'.join(xs)\<close>.\<close>

definition endswith :: "string \<Rightarrow> string \<Rightarrow> bool" where
  "endswith s p = (length p \<le> length s \<and> drop (length s - length p) s = p)"

fun split_sep :: "string \<Rightarrow> string list" where
  "split_sep [] = [[]]"
| "split_sep (c # cs) =
     (if c = CHR ''/'' then [] # split_sep cs
      else (case split_sep cs of x # xs \<Rightarrow> (c # x) # xs | [] \<Rightarrow> [[c]]))"

fun join_sep :: "string list \<Rightarrow> string" where
  "join_sep [] = []"
| "join_sep [x] = x"
| "join_sep (x # y # ys) = x @ ''/'' @ join_sep (y # ys)"

text \<open>
  \<^verbatim>\<open>os.path.normpath\<close> of \<^verbatim>\<open>posixpath\<close>:
  \<^verbatim>\<open>
  if not path: return '.'
  initial_slashes = path.startswith('/')
  if initial_slashes and path.startswith('//') and not path.startswith('///'):
      initial_slashes = 2
  comps = path.split('/')
  new_comps = []
  for comp in comps:
      if comp in ('', '.'): continue
      if (comp != '..' or (not initial_slashes and not new_comps) or
              (new_comps and new_comps[-1] == '..')):
          new_comps.append(comp)
      elif new_comps:
          new_comps.pop()
  path = '/'.join(new_comps)
  if initial_slashes: path = '/' * initial_slashes + path
  return path or '.'
  \<close>
\<close>

definition normpath_step :: "nat \<Rightarrow> string \<Rightarrow> string list \<Rightarrow> string list" where
  "normpath_step initial_slashes component new_components =
     (if component = [] \<or> component = ''.'' then new_components
      else if component \<noteq> ''..'' \<or> (initial_slashes = 0 \<and> new_components = [])
                \<or> (new_components \<noteq> [] \<and> last new_components = ''..'')
        then new_components @ [component]
      else if new_components \<noteq> [] then butlast new_components
      else new_components)"

definition normpath :: "string \<Rightarrow> string" where
  "normpath path =
     (if path = [] then ''.''
      else let initial_slashes =
                 (if startswith path ''/''
                  then (if startswith path ''//'' \<and> \<not> startswith path ''///'' then 2 else 1)
                  else 0);
               new_comps = fold (normpath_step initial_slashes) (split_sep path) [];
               res = replicate initial_slashes (CHR ''/'') @ join_sep new_comps
           in if res = [] then ''.'' else res)"

text \<open>
  \<^verbatim>\<open>
  def to_dbx_path(self, local_path):
      if not local_path:
          raise ValueError('No path specified')
      dbx_root_list = osp.normpath(self.dropbox_path).split(osp.sep)
      path_list = osp.normpath(local_path).split(osp.sep)
      i = len(osp.commonprefix([dbx_root_list, path_list]))
      if i == len(path_list):  # path corresponds to dropbox_path
          return '/'
      elif i != len(dbx_root_list):  # path is outside of to dropbox_path
          raise ValueError(...)
      return '/{}'.format('/'.join(path_list[i:]))
  \<close>
  \<^verbatim>\<open>commonprefix\<close> of two lists is their longest common prefix.
\<close>

definition to_dbx_path :: "sync_state \<Rightarrow> string \<Rightarrow> exn + string" where
  "to_dbx_path s local_path =
     (if local_path = [] then Inl ValueError
      else let dbx_root_list = split_sep (normpath (dropbox_path s));
               path_list = split_sep (normpath local_path);
               i = length (longest_common_prefix dbx_root_list path_list)
           in if i = length path_list then Inr ''/''
              else if i \<noteq> length dbx_root_list then Inl ValueError
              else Inr (''/'' @ join_sep (drop i path_list)))"

text \<open>
  Modelled from the spec: \<^verbatim>\<open>is_child\<close> of \<^verbatim>\<open>maestral.utils.path\<close>, which is not among the
  sources. The spec says: \<^verbatim>\<open>is_child(sub, parent)\<close> is true iff \<^verbatim>\<open>sub\<close> lies strictly beneath
  \<^verbatim>\<open>parent\<close>. Here \<^verbatim>\<open>sub\<close> lies strictly beneath \<^verbatim>\<open>parent\<close> when it continues
  \<^verbatim>\<open>parent\<close>, taken without separators at its end, by a separator and at least one more
  character.
\<close>

definition is_child :: "string \<Rightarrow> string \<Rightarrow> bool" where
  "is_child sub parent =
     (let p = rstrip_sep parent @ ''/'' in startswith sub p \<and> length p < length sub)"

text \<open>
  What the module imports: the constants \<^verbatim>\<open>EXCLUDED_FILE_NAMES\<close> and
  \<^verbatim>\<open>IS_FS_CASE_SENSITIVE\<close> of \<^verbatim>\<open>maestral.constants\<close>, and the matching of a path against
  gitignore patterns by the \<^verbatim>\<open>pathspec\<close> library (\<^verbatim>\<open>PathSpec.match_file\<close>).
\<close>

record externals =
  EXCLUDED_FILE_NAMES :: "string list"
  IS_FS_CASE_SENSITIVE :: bool
  match_file :: "string list \<Rightarrow> string \<Rightarrow> bool"

text \<open>
  \<^verbatim>\<open>
  def is_excluded(dbx_path):
      dbx_path = dbx_path.lower()
      if dbx_path in ['/', '']:
          return True
      basename = osp.basename(dbx_path)
      test0 = basename in EXCLUDED_FILE_NAMES
      test1 = basename.startswith('~$')
      test2 = basename.startswith('.~')
      test3 = basename.startswith('~') and basename.endswith('.tmp')
      return any((test0, test1, test2, test3))

  def is_excluded_by_user(self, dbx_path):
      dbx_path = dbx_path.lower()
      return any(dbx_path == f or is_child(dbx_path, f) for f in self.excluded_items)
  \<close>
\<close>

definition is_excluded :: "externals \<Rightarrow> string \<Rightarrow> bool" where
  "is_excluded X dbx_path =
     (let p = lower dbx_path in
      if p = ''/'' \<or> p = [] then True
      else let name = basename p in
        name \<in> set (EXCLUDED_FILE_NAMES X) \<or> startswith name ''~$'' \<or> startswith name ''.~''
        \<or> (startswith name ''~'' \<and> endswith name ''.tmp''))"

definition is_excluded_by_user :: "sync_state \<Rightarrow> string \<Rightarrow> bool" where
  "is_excluded_by_user s dbx_path =
     (let p = lower dbx_path in list_ex (\<lambda>f. p = f \<or> is_child p f) (excluded_items s))"

text \<open>
  \<^verbatim>\<open>
  def _is_mignore_path(self, dbx_path, is_dir=False):
      relative_path = dbx_path.lstrip('/')
      if is_dir:
          relative_path += '/'
      return self.mignore_rules.match_file(relative_path)
  \<close>
  The property \<^verbatim>\<open>mignore_rules\<close> loads the rules again when the mignore file has changed
  on disk; here the rules are the ones held in the state.
\<close>

definition is_mignore_path :: "externals \<Rightarrow> sync_state \<Rightarrow> string \<Rightarrow> bool \<Rightarrow> bool" where
  "is_mignore_path X s dbx_path is_dir =
     match_file X (mignore_rules s)
       (if is_dir then lstrip_sep dbx_path @ ''/'' else lstrip_sep dbx_path)"

section \<open>Cleaning up local file events\<close>

text \<open>
  \<^verbatim>\<open>
  def _should_split_excluded(self, event):
      if event.event_type != EVENT_TYPE_MOVED:
          raise ValueError('Can only split moved events')
      if (self.is_excluded(event.src_path)
              or self.is_excluded(event.dest_path)
              or self.is_excluded_by_user(event.src_path)
              or self.is_excluded_by_user(event.dest_path)):
          return True
      else:
          return self._should_split_mignore(event)

  def _should_split_mignore(self, event):
      if len(self.mignore_rules.patterns) == 0:
          return False
      dbx_src_path = self.to_dbx_path(event.src_path)
      dbx_dest_path = self.to_dbx_path(event.dest_path)
      return (self._is_mignore_path(dbx_src_path, event.is_directory)
              or self._is_mignore_path(dbx_dest_path, event.is_directory))
  \<close>
\<close>

definition should_split_mignore :: "externals \<Rightarrow> sync_state \<Rightarrow> event \<Rightarrow> exn + bool" where
  "should_split_mignore X s e =
     (if length (mignore_rules s) = 0 then Inr False
      else case to_dbx_path s (src_path e) of
        Inl x \<Rightarrow> Inl x
      | Inr dbx_src_path \<Rightarrow>
          (case to_dbx_path s (get_dest_path e) of
             Inl x \<Rightarrow> Inl x
           | Inr dbx_dest_path \<Rightarrow>
               Inr (is_mignore_path X s dbx_src_path (is_directory e)
                    \<or> is_mignore_path X s dbx_dest_path (is_directory e))))"

definition should_split_excluded :: "externals \<Rightarrow> sync_state \<Rightarrow> event \<Rightarrow> exn + bool" where
  "should_split_excluded X s e =
     (if event_type e \<noteq> EVENT_TYPE_MOVED then Inl ValueError
      else if is_excluded X (src_path e) \<or> is_excluded X (get_dest_path e)
              \<or> is_excluded_by_user s (src_path e) \<or> is_excluded_by_user s (get_dest_path e)
        then Inr True
      else should_split_mignore X s e)"

text \<open>
  The first loop of \<^verbatim>\<open>_clean_local_events\<close>, for one event \<^verbatim>\<open>e\<close>:
  \<^verbatim>\<open>
  if e.event_type == EVENT_TYPE_MOVED:
      related = tuple(p for p in all_paths if p in (e.src_path, e.dest_path))
      if len(related) > 2 or self._should_split_excluded(e):
          if e.is_directory:
              CreatedEvent = DirCreatedEvent; DeletedEvent = DirDeletedEvent
          else:
              CreatedEvent = FileCreatedEvent; DeletedEvent = FileDeletedEvent
          new_events.append(DeletedEvent(e.src_path))
          new_events.append(CreatedEvent(e.dest_path))
      else:
          new_events.append(e)
  else:
      new_events.append(e)
  \<close>
\<close>

definition split_event :: "event \<Rightarrow> event list" where
  "split_event e =
     (if is_directory e then [DirDeletedEvent (src_path e), DirCreatedEvent (get_dest_path e)]
      else [FileDeletedEvent (src_path e), FileCreatedEvent (get_dest_path e)])"

definition split_moved_event ::
  "externals \<Rightarrow> sync_state \<Rightarrow> string list \<Rightarrow> event \<Rightarrow> exn + event list" where
  "split_moved_event X s all_paths e =
     (if event_type e = EVENT_TYPE_MOVED then
        (let related = filter (\<lambda>p. p = src_path e \<or> p = get_dest_path e) all_paths in
         if length related > 2 then Inr (split_event e)
         else case should_split_excluded X s e of
                Inl x \<Rightarrow> Inl x
              | Inr b \<Rightarrow> Inr (if b then split_event e else [e]))
      else Inr [e])"

fun split_moved_events ::
  "externals \<Rightarrow> sync_state \<Rightarrow> string list \<Rightarrow> event list \<Rightarrow> exn + event list" where
  "split_moved_events X s all_paths [] = Inr []"
| "split_moved_events X s all_paths (e # es) =
     (case split_moved_event X s all_paths e of
        Inl x \<Rightarrow> Inl x
      | Inr new \<Rightarrow>
          (case split_moved_events X s all_paths es of
             Inl x \<Rightarrow> Inl x
           | Inr rest \<Rightarrow> Inr (new @ rest)))"

text \<open>
  \<^verbatim>\<open>next(iter(i for i, e in enumerate(h) if e.event_type == t), -1)\<close>
\<close>

definition first_idx :: "event_types \<Rightarrow> event list \<Rightarrow> int" where
  "first_idx t h =
     (if list_ex (\<lambda>e. event_type e = t) h
      then int (length (takeWhile (\<lambda>e. event_type e \<noteq> t) h)) else - 1)"

text \<open>
  The second loop of \<^verbatim>\<open>_clean_local_events\<close>, for one history \<^verbatim>\<open>h\<close>:
  \<^verbatim>\<open>
  if len(h) == 1:
      new_events += h
  else:
      path = h[0].src_path
      n_created = len([e for e in h if e.event_type == EVENT_TYPE_CREATED])
      n_deleted = len([e for e in h if e.event_type == EVENT_TYPE_DELETED])
      if n_created > n_deleted:  # item was created
          if h[-1].is_directory:
              new_events.append(DirCreatedEvent(path))
          else:
              new_events.append(FileCreatedEvent(path))
      if n_created < n_deleted:  # item was deleted
          if h[0].is_directory:
              new_events.append(DirDeletedEvent(path))
          else:
              new_events.append(FileDeletedEvent(path))
      else:
          first_created_idx = next(iter(...), -1)
          first_deleted_idx = next(iter(...), -1)
          if n_created == 0 or first_deleted_idx < first_created_idx:
              # item was modified
              if h[0].is_directory and h[-1].is_directory:
                  new_events.append(DirModifiedEvent(path))
              elif not h[0].is_directory and not h[-1].is_directory:
                  new_events.append(FileModifiedEvent(path))
              elif h[0].is_directory:
                  new_events.append(DirDeletedEvent(path))
                  new_events.append(FileCreatedEvent(path))
              elif h[1].is_directory:
                  new_events.append(FileDeletedEvent(path))
                  new_events.append(DirCreatedEvent(path))
          else:
              # item was only temporary
              pass
  \<close>
  The second \<^verbatim>\<open>if\<close> is not an \<^verbatim>\<open>elif\<close>: its \<^verbatim>\<open>else\<close> branch also runs when
  \<^verbatim>\<open>n_created > n_deleted\<close>. A history is never empty; \<^verbatim>\<open>h[0]\<close> on an empty list would
  raise \<^verbatim>\<open>IndexError\<close>.
\<close>

fun clean_history :: "event list \<Rightarrow> exn + event list" where
  "clean_history [] = Inl IndexError"
| "clean_history [e] = Inr [e]"
| "clean_history (h0 # h1 # es) =
     (let h = h0 # h1 # es;
          path = src_path h0;
          n_created = length (filter (\<lambda>e. event_type e = EVENT_TYPE_CREATED) h);
          n_deleted = length (filter (\<lambda>e. event_type e = EVENT_TYPE_DELETED) h);
          created =
            (if n_created > n_deleted
             then (if is_directory (last h) then [DirCreatedEvent path]
                   else [FileCreatedEvent path])
             else []);
          other =
            (if n_created < n_deleted
             then (if is_directory h0 then [DirDeletedEvent path] else [FileDeletedEvent path])
             else if n_created = 0
                     \<or> first_idx EVENT_TYPE_DELETED h < first_idx EVENT_TYPE_CREATED h
               then (if is_directory h0 \<and> is_directory (last h) then [DirModifiedEvent path]
                     else if \<not> is_directory h0 \<and> \<not> is_directory (last h)
                       then [FileModifiedEvent path]
                     else if is_directory h0
                       then [DirDeletedEvent path, FileCreatedEvent path]
                     else if is_directory h1
                       then [FileDeletedEvent path, DirCreatedEvent path]
                     else [])
             else [])
      in Inr (created @ other))"

fun clean_histories :: "event list list \<Rightarrow> exn + event list" where
  "clean_histories [] = Inr []"
| "clean_histories (h # hs) =
     (case clean_history h of
        Inl x \<Rightarrow> Inl x
      | Inr new \<Rightarrow>
          (case clean_histories hs of Inl x \<Rightarrow> Inl x | Inr rest \<Rightarrow> Inr (new @ rest)))"

text \<open>
  \<^verbatim>\<open>
  def _clean_local_events(self, events):
      all_src_paths = [e.src_path for e in events]
      all_dest_paths = [e.dest_path for e in events if e.event_type == EVENT_TYPE_MOVED]
      all_paths = all_src_paths + all_dest_paths
      new_events = []
      for e in events: (the first loop)
      events = new_events.copy()
      unique_paths = set(e.src_path for e in events)
      histories = [[e for e in events if e.src_path == path] for path in unique_paths]
      new_events.clear()
      for h in histories: (the second loop)
      return new_events
  \<close>
  Python leaves the order in which a set is iterated open. The order is the parameter
  \<open>set_iter\<close>: applied to the list from which the set is built, it gives the elements of
  the set in the order of the iteration.
\<close>

definition clean_local_events ::
  "externals \<Rightarrow> (string list \<Rightarrow> string list) \<Rightarrow> sync_state \<Rightarrow> event list \<Rightarrow> exn + event list" where
  "clean_local_events X set_iter s events =
     (let all_src_paths = map src_path events;
          all_dest_paths =
            map get_dest_path (filter (\<lambda>e. event_type e = EVENT_TYPE_MOVED) events);
          all_paths = all_src_paths @ all_dest_paths
      in case split_moved_events X s all_paths events of
           Inl x \<Rightarrow> Inl x
         | Inr events' \<Rightarrow>
             (let unique_paths = set_iter (map src_path events');
                  histories = map (\<lambda>path. filter (\<lambda>e. src_path e = path) events') unique_paths
              in clean_histories histories))"

text \<open>
  The part of \<^verbatim>\<open>wait_for_local_changes\<close> that cleans up the collected events:
  \<^verbatim>\<open>
  events = self._clean_local_events(events)
  events = [e for e in events if not isinstance(e, DirModifiedEvent)]
  dir_moved_events = [e for e in events if self._is_dir_moved(e)]
  if len(dir_moved_events) > 0:
      child_move_events = []
      for parent_event in dir_moved_events:
          children = [x for x in events if self._is_moved_child(x, parent_event)]
          child_move_events += children
      events = self._list_diff(events, child_move_events)
  dir_deleted_events = [x for x in events if self._is_dir_deleted(x)]
  if len(dir_deleted_events) > 0:
      child_deleted_events = []
      for parent_event in dir_deleted_events:
          children = [x for x in events if self._is_deleted_child(x, parent_event)]
          child_deleted_events += children
      events = self._list_diff(events, child_deleted_events)
  \<close>
\<close>

definition list_diff :: "'a list \<Rightarrow> 'a list \<Rightarrow> 'a list" where
  "list_diff list1 list2 = filter (\<lambda>item. item \<notin> set list2) list1"

definition is_dir_moved :: "event \<Rightarrow> bool" where
  "is_dir_moved x = (event_type x = EVENT_TYPE_MOVED \<and> is_directory x)"

definition is_moved_child :: "event \<Rightarrow> event \<Rightarrow> bool" where
  "is_moved_child x parent =
     (event_type x = EVENT_TYPE_MOVED \<and> is_child (src_path x) (src_path parent)
      \<and> is_child (get_dest_path x) (get_dest_path parent))"

definition is_dir_deleted :: "event \<Rightarrow> bool" where
  "is_dir_deleted x = (event_type x = EVENT_TYPE_DELETED \<and> is_directory x)"

definition is_deleted_child :: "event \<Rightarrow> event \<Rightarrow> bool" where
  "is_deleted_child x parent =
     (event_type x = EVENT_TYPE_DELETED \<and> is_child (src_path x) (src_path parent))"

fun is_dir_modified :: "event \<Rightarrow> bool" where
  "is_dir_modified (DirModifiedEvent p) = True"
| "is_dir_modified e = False"

definition combine_events :: "event list \<Rightarrow> event list" where
  "combine_events events0 =
     (let events1 = filter (\<lambda>e. \<not> is_dir_modified e) events0;
          dir_moved_events = filter is_dir_moved events1;
          child_move_events =
            concat (map (\<lambda>parent. filter (\<lambda>x. is_moved_child x parent) events1) dir_moved_events);
          events2 = (if length dir_moved_events > 0 then list_diff events1 child_move_events
                     else events1);
          dir_deleted_events = filter is_dir_deleted events2;
          child_deleted_events =
            concat (map (\<lambda>parent. filter (\<lambda>x. is_deleted_child x parent) events2)
                     dir_deleted_events)
      in if length dir_deleted_events > 0 then list_diff events2 child_deleted_events
         else events2)"

definition wait_for_local_changes_clean ::
  "externals \<Rightarrow> (string list \<Rightarrow> string list) \<Rightarrow> sync_state \<Rightarrow> event list \<Rightarrow> exn + event list" where
  "wait_for_local_changes_clean X set_iter s events =
     (case clean_local_events X set_iter s events of
        Inl x \<Rightarrow> Inl x
      | Inr events0 \<Rightarrow> Inr (combine_events events0))"

section \<open>The handler of local file events\<close>

text \<open>
  \<^verbatim>\<open>
  def is_being_downloaded(self, local_path):
      with self.queue_downloading.mutex:
          local_path = local_path.lower()
          return any(local_path == p.lower() or is_child(local_path, p.lower())
                     for p in self.queue_downloading.queue)
  \<close>
\<close>

definition is_being_downloaded :: "sync_state \<Rightarrow> string \<Rightarrow> bool" where
  "is_being_downloaded s local_path =
     (let lp = lower local_path
      in list_ex (\<lambda>p. lp = lower p \<or> is_child lp (lower p)) (queue_downloading s))"

text \<open>\<^verbatim>\<open>str(i)\<close> for a natural number.\<close>

fun str_nat :: "nat \<Rightarrow> string" where
  "str_nat n =
     (if n < 10 then [char_of (48 + n)] else str_nat (n div 10) @ [char_of (48 + n mod 10)])"

text \<open>
  The search for a free name in \<^verbatim>\<open>rename_on_case_conflict\<close>:
  \<^verbatim>\<open>
  while any(p.lower() == new_path.lower() for p in other_items):
      new_path = f'{base} (case conflict {i}){ext}'
      i += 1
  \<close>
\<close>

partial_function (option) find_new_path ::
  "string \<Rightarrow> string \<Rightarrow> string list \<Rightarrow> string \<Rightarrow> nat \<Rightarrow> string option" where
  "find_new_path base ext other_items new_path i =
     (if list_ex (\<lambda>p. lower p = lower new_path) other_items
      then find_new_path base ext other_items
             (base @ '' (case conflict '' @ str_nat i @ '')'' @ ext) (i + 1)
      else Some new_path)"

declare find_new_path.simps [code]

text \<open>
  \<^verbatim>\<open>
  def rename_on_case_conflict(self, event):
      if not (event.event_type is EVENT_TYPE_CREATED or event.event_type is
              EVENT_TYPE_MOVED):
          return event
      created_path = get_dest_path(event)
      try:
          parent_dir = osp.dirname(created_path)
          other_items = [osp.join(parent_dir, file) for file in os.listdir(parent_dir)]
          other_items.remove(created_path)
      except (FileNotFoundError, ValueError):
          return event
      if any(p.lower() == created_path.lower() for p in other_items):
          base, ext = osp.splitext(created_path)
          new_path = f'{base} (case conflict){ext}'
          i = 1
          (the search for a free name)
          self._renamed_items_cache.append(created_path)  # ignore temporarily
          shutil.move(created_path, new_path)  # this will be picked up by watchdog
          if isinstance(event, DirCreatedEvent):
              return DirCreatedEvent(src_path=new_path)
          elif isinstance(event, FileCreatedEvent):
              return FileCreatedEvent(src_path=new_path)
          elif isinstance(event, DirMovedEvent):
              return DirMovedEvent(src_path=event.src_path, dest_path=new_path)
          elif isinstance(event, FileMovedEvent):
              return FileMovedEvent(src_path=event.src_path, dest_path=new_path)
      return event
  \<close>
  The result is \<open>None\<close> when the search does not return; otherwise it holds the event, or
  the exception that was raised, and the state and the world.
\<close>

fun renamed_event :: "event \<Rightarrow> string \<Rightarrow> event" where
  "renamed_event (DirCreatedEvent p) new_path = DirCreatedEvent new_path"
| "renamed_event (FileCreatedEvent p) new_path = FileCreatedEvent new_path"
| "renamed_event (DirMovedEvent p d) new_path = DirMovedEvent p new_path"
| "renamed_event (FileMovedEvent p d) new_path = FileMovedEvent p new_path"
| "renamed_event e new_path = e"

definition rename_on_case_conflict ::
  "'w env \<Rightarrow> event \<Rightarrow> sync_state \<Rightarrow> 'w \<Rightarrow> ((exn + event) \<times> sync_state \<times> 'w) option" where
  "rename_on_case_conflict E e s w =
     (if \<not> (event_type e = EVENT_TYPE_CREATED \<or> event_type e = EVENT_TYPE_MOVED)
      then Some (Inr e, s, w)
      else let created_path = get_dest_path e; parent_dir = dirname created_path in
        case listdir E w parent_dir of
          Inl FileNotFoundError \<Rightarrow> Some (Inr e, s, w)
        | Inl x \<Rightarrow> Some (Inl x, s, w)
        | Inr files \<Rightarrow>
            if created_path \<notin> set (map (join_path parent_dir) files) then Some (Inr e, s, w)
            else let other_items = remove1 created_path (map (join_path parent_dir) files) in
              if list_ex (\<lambda>p. lower p = lower created_path) other_items then
                (let (base, ext) = splitext created_path in
                 case find_new_path base ext other_items (base @ '' (case conflict)'' @ ext) 1 of
                   None \<Rightarrow> None
                 | Some new_path \<Rightarrow>
                     (let s' = s\<lparr>renamed_items_cache := renamed_items_cache s @ [created_path]\<rparr>
                      in case move E created_path new_path w of
                           Inl x \<Rightarrow> Some (Inl x, s', w)
                         | Inr w' \<Rightarrow> Some (Inr (renamed_event e new_path), s', w')))
              else Some (Inr e, s, w))"

text \<open>
  \<^verbatim>\<open>
  def on_any_event(self, event):
      if not (self.syncing.is_set() or self.startup.is_set()):
          return
      if self.is_being_downloaded(event.src_path):
          return
      if IS_FS_CASE_SENSITIVE:
          event = self.rename_on_case_conflict(event)
      if event.src_path in self._renamed_items_cache:
          self._renamed_items_cache.remove(event.src_path)
          return
      self.local_file_event_queue.put(event)
  \<close>
  The time of the last put, which the queue remembers, is left out.
\<close>

definition on_any_event ::
  "externals \<Rightarrow> 'w env \<Rightarrow> event \<Rightarrow> sync_state \<Rightarrow> 'w \<Rightarrow> ((exn + unit) \<times> sync_state \<times> 'w) option" where
  "on_any_event X E e s w =
     (if \<not> (syncing s \<or> startup s) then Some (Inr (), s, w)
      else if is_being_downloaded s (src_path e) then Some (Inr (), s, w)
      else case (if IS_FS_CASE_SENSITIVE X then rename_on_case_conflict E e s w
                 else Some (Inr e, s, w)) of
        None \<Rightarrow> None
      | Some (Inl x, s', w') \<Rightarrow> Some (Inl x, s', w')
      | Some (Inr e', s', w') \<Rightarrow>
          if src_path e' \<in> set (renamed_items_cache s')
          then Some (Inr (), s'\<lparr>renamed_items_cache := remove1 (src_path e') (renamed_items_cache s')\<rparr>, w')
          else Some (Inr (), s'\<lparr>local_file_event_queue := local_file_event_queue s' @ [e']\<rparr>, w'))"

section \<open>Applying remote changes\<close>

text \<open>
  A function that can raise, change the state and the world, and call \<^verbatim>\<open>set_local_rev\<close>
  returns a value of type \<open>((exn + 'a) \<times> sync_state \<times> 'w) option\<close>: \<open>None\<close> when it does not
  return, otherwise its result or the exception together with the state and the world it
  leaves behind. \<open>bind_res\<close> runs a second step after a first one that returned a result.
\<close>

definition bind_res ::
  "((exn + 'a) \<times> 'st) option \<Rightarrow> ('a \<Rightarrow> 'st \<Rightarrow> ((exn + 'b) \<times> 'st) option)
     \<Rightarrow> ((exn + 'b) \<times> 'st) option" where
  "bind_res m f =
     (case m of None \<Rightarrow> None | Some (Inl x, st) \<Rightarrow> Some (Inl x, st) | Some (Inr a, st) \<Rightarrow> f a st)"

text \<open>
  \<^verbatim>\<open>
  def clear_sync_error(self, local_path=None, dbx_path=None):
      assert local_path or dbx_path
      if not dbx_path:
          dbx_path = self.to_dbx_path(local_path)
      if self.has_sync_errors():
          for error in list(self.sync_errors.queue):
              if error.dbx_path.lower() == dbx_path.lower():
                  remove_from_queue(self.sync_errors, error)
      self.download_errors.discard(dbx_path)
  \<close>
  \<^verbatim>\<open>SyncStateSet.discard\<close> and \<^verbatim>\<open>SyncStateSet.add\<close> take the path in lower case and
  without separators at its end.
\<close>

definition falsy :: "string option \<Rightarrow> bool" where
  "falsy x = (x = None \<or> x = Some [])"

definition clear_sync_error :: "sync_state \<Rightarrow> string option \<Rightarrow> string option \<Rightarrow> exn + sync_state" where
  "clear_sync_error s local_path dbx_path =
     (if falsy local_path \<and> falsy dbx_path then Inl AssertionError
      else case (if falsy dbx_path
                 then (case local_path of None \<Rightarrow> Inl TypeError | Some lp \<Rightarrow> to_dbx_path s lp)
                 else (case dbx_path of None \<Rightarrow> Inl TypeError | Some d \<Rightarrow> Inr d)) of
        Inl x \<Rightarrow> Inl x
      | Inr d \<Rightarrow>
          Inr (s\<lparr>sync_errors := filter (\<lambda>(k, ed, el). lower ed \<noteq> lower d) (sync_errors s),
                 download_errors := download_errors s - {rstrip_sep (lower d)}\<rparr>))"


text \<open>
  \<^verbatim>\<open>_create_local_entry\<close> without its decorator. The steps before the case distinction on
  the class of the entry:
  \<^verbatim>\<open>
  local_path = self.to_local_path(entry.path_display)
  self.clear_sync_error(dbx_path=entry.path_display)
  remove_from_queue(self.queued_for_download, local_path)
  conflict_check = self.check_download_conflict(entry)
  applied = None
  if conflict_check in (Conflict.Identical, Conflict.LocalNewerOrIdentical):
      return applied
  elif conflict_check == Conflict.Conflict:
      base, ext = osp.splitext(local_path)
      new_local_file = ''.join((base, ' (conflicting copy)', ext))
      shutil.move(local_path, new_local_file)
  \<close>
  and the three cases:
  \<^verbatim>\<open>
  if isinstance(entry, FileMetadata):
      self._save_to_history(entry.path_display)
      with InQueue(local_path, queue=self.queue_downloading, delay=1):
          if osp.isdir(local_path):
              delete(local_path)
          md = self.client.download(entry.path_display, local_path)
          self.set_last_sync_for_path(md.path_lower, get_ctime(local_path))
          self.set_local_rev(md.path_lower, md.rev)
      applied = entry
  elif isinstance(entry, FolderMetadata):
      with InQueue(local_path, queue=self.queue_downloading, delay=1):
          if osp.isfile(local_path):
              delete(local_path)
          try:
              os.makedirs(local_path)
          except FileExistsError:
              pass
          self.set_last_sync_for_path(entry.path_lower, get_ctime(local_path))
          self.set_local_rev(entry.path_lower, 'folder')
      applied = entry
  elif isinstance(entry, DeletedMetadata):
      with InQueue(local_path, queue=self.queue_downloading, delay=1):
          err = delete(local_path)
          self.set_local_rev(entry.path_lower, None)
          self.set_last_sync_for_path(entry.path_lower, 0.0)
      if not err:
          applied = entry
  return applied
  \<close>
  \<^verbatim>\<open>InQueue\<close> puts the path into the queue when the block is entered. When the block is
  left it starts a timer, which removes the path from the queue on its own thread after
  the delay; this removal is not part of the function, and the path is still in the queue
  when the function returns. The metadata that \<^verbatim>\<open>client.download\<close> returns has a rev only
  if it is a \<^verbatim>\<open>FileMetadata\<close>.
\<close>

definition lift_rev ::
  "sync_state option \<Rightarrow> 'w \<Rightarrow> 'a \<Rightarrow> ((exn + 'a) \<times> sync_state \<times> 'w) option" where
  "lift_rev r w a = (case r of None \<Rightarrow> None | Some s \<Rightarrow> Some (Inr a, s, w))"






definition catch_sync_error ::
  "'w env \<Rightarrow> bool \<Rightarrow> exn \<Rightarrow> sync_state \<Rightarrow> 'w \<Rightarrow> (exn + unit) \<times> sync_state \<times> 'w" where
  "catch_sync_error E with_metadata x s w =
     (case x of
        SyncError k dbx lp \<Rightarrow>
          (case dbx of
             None \<Rightarrow> (Inl TypeError, s, w)
           | Some d \<Rightarrow>
               (let l = (case lp of None \<Rightarrow> to_local_path E s w d | Some l' \<Rightarrow> l');
                    s1 = s\<lparr>sync_errors := sync_errors s @ [(k, d, l)]\<rparr>
                in (Inr (),
                    (if with_metadata
                     then s1\<lparr>download_errors := insert (rstrip_sep (lower d)) (download_errors s1)\<rparr>
                     else s1),
                    w)))
      | _ \<Rightarrow> (Inl x, s, w))"


text \<open>
  \<^verbatim>\<open>dropbox.files.ListFolderResult\<close>, and the argument of \<^verbatim>\<open>apply_remote_changes\<close>, which
  is such a result, or \<^verbatim>\<open>False\<close> if the request failed (here \<open>None\<close>).
\<close>

record list_folder_result =
  entries :: "metadata list"
  cursor :: string
  has_more :: bool






definition count_sep :: "string \<Rightarrow> nat" where
  "count_sep p = length (filter (\<lambda>c. c = CHR ''/'') p)"

definition sort_reverse_key :: "('a \<Rightarrow> nat) \<Rightarrow> 'a list \<Rightarrow> 'a list" where
  "sort_reverse_key f xs = rev (sort_key f (rev xs))"





section \<open>Applying local changes\<close>

text \<open>
  \<^verbatim>\<open>
  def is_mignore(self, event):
      if len(self.mignore_rules.patterns) == 0:
          return False
      if event.event_type == EVENT_TYPE_MOVED:
          raise ValueError(...)
      dbx_path = self.to_dbx_path(event.src_path)
      return (self._is_mignore_path(dbx_path, is_dir=event.is_directory)
              and not self.get_local_rev(dbx_path))
  \<close>
\<close>

definition is_mignore :: "externals \<Rightarrow> sync_state \<Rightarrow> event \<Rightarrow> exn + bool" where
  "is_mignore X s e =
     (if length (mignore_rules s) = 0 then Inr False
      else if event_type e = EVENT_TYPE_MOVED then Inl ValueError
      else case to_dbx_path s (src_path e) of
        Inl x \<Rightarrow> Inl x
      | Inr dbx_path \<Rightarrow>
          Inr (is_mignore_path X s dbx_path (is_directory e) \<and> falsy (local_rev s dbx_path)))"

text \<open>
  \<^verbatim>\<open>_filter_excluded_changes_local\<close>, for one event; the result says whether the event is
  kept:
  \<^verbatim>\<open>
  local_path = get_dest_path(event)
  dbx_path = self.to_dbx_path(local_path)
  if self.is_excluded(dbx_path):  # is excluded?
      events_excluded.append(event)
  elif self.is_excluded_by_user(dbx_path):  # is excluded by selective sync?
      if event.event_type is EVENT_TYPE_DELETED:
          self.clear_sync_error(local_path, dbx_path)
      else:
          (title, message)
          exc = ExcludedItemError(title, message, dbx_path=dbx_path, local_path=local_path)
          self.sync_errors.put(exc)
      events_excluded.append(event)
  elif self.is_mignore(event):  # is excluded by mignore?
      events_excluded.append(event)
  else:
      events_filtered.append(event)
  \<close>
\<close>

definition filter_excluded_change_local ::
  "externals \<Rightarrow> event \<Rightarrow> sync_state \<Rightarrow> (exn + bool) \<times> sync_state" where
  "filter_excluded_change_local X e s =
     (let local_path = get_dest_path e in
      case to_dbx_path s local_path of
        Inl x \<Rightarrow> (Inl x, s)
      | Inr dbx_path \<Rightarrow>
          if is_excluded X dbx_path then (Inr False, s)
          else if is_excluded_by_user s dbx_path then
            (if event_type e = EVENT_TYPE_DELETED
             then (case clear_sync_error s (Some local_path) (Some dbx_path) of
                     Inl x \<Rightarrow> (Inl x, s)
                   | Inr s' \<Rightarrow> (Inr False, s'))
             else (Inr False,
                   s\<lparr>sync_errors := sync_errors s @ [(ExcludedItemError, dbx_path, local_path)]\<rparr>))
          else (case is_mignore X s e of
                  Inl x \<Rightarrow> (Inl x, s)
                | Inr b \<Rightarrow> (Inr (\<not> b), s)))"

fun filter_excluded_changes_local ::
  "externals \<Rightarrow> event list \<Rightarrow> sync_state \<Rightarrow> (exn + event list \<times> event list) \<times> sync_state" where
  "filter_excluded_changes_local X [] s = (Inr ([], []), s)"
| "filter_excluded_changes_local X (e # es) s =
     (case filter_excluded_change_local X e s of
        (Inl x, s') \<Rightarrow> (Inl x, s')
      | (Inr keep, s') \<Rightarrow>
          (case filter_excluded_changes_local X es s' of
             (Inl x, s'') \<Rightarrow> (Inl x, s'')
           | (Inr (events_filtered, events_excluded), s'') \<Rightarrow>
               (Inr (if keep then (e # events_filtered, events_excluded)
                     else (events_filtered, e # events_excluded)), s'')))"

text \<open>
  \<^verbatim>\<open>
  def _on_deleted(self, event):
      path = event.src_path
      dbx_path = self.to_dbx_path(path)
      local_rev = self.get_local_rev(dbx_path)
      is_file = local_rev != 'folder'
      is_folder = local_rev == 'folder'
      md = self.client.get_metadata(dbx_path, include_deleted=True)
      if is_folder and isinstance(md, FileMetadata):
          # don't delete a remote file if it was modified since last sync
          if md.server_modified.timestamp() >= self.get_last_sync_for_path(dbx_path):
              self.set_local_rev(dbx_path, None)
              return
      if is_file and isinstance(md, FolderMetadata):
          # don't delete a remote folder if we were expecting a file
          self.set_local_rev(dbx_path, None)
          return
      try:
          # will only perform delete if Dropbox rev matches local_rev
          self.client.remove(dbx_path, parent_rev=local_rev if is_file else None)
      except NotFoundError:
          (log)
      except PathError:
          (log)
      # remove revision metadata
      self.set_local_rev(dbx_path, None)
  \<close>
\<close>

definition keep_remote_item :: "sync_state \<Rightarrow> string \<Rightarrow> metadata option \<Rightarrow> bool" where
  "keep_remote_item s dbx_path md =
     (case md of
        Some (FileMetadata pd pl r h t) \<Rightarrow>
          local_rev s dbx_path = Some ''folder'' \<and> t \<ge> get_last_sync_for_path s dbx_path
      | Some (FolderMetadata pd pl) \<Rightarrow> local_rev s dbx_path \<noteq> Some ''folder''
      | _ \<Rightarrow> False)"

definition on_deleted ::
  "'w env \<Rightarrow> event \<Rightarrow> sync_state \<Rightarrow> 'w \<Rightarrow> ((exn + unit) \<times> sync_state \<times> 'w) option" where
  "on_deleted E e s w =
     (case to_dbx_path s (src_path e) of
        Inl x \<Rightarrow> Some (Inl x, s, w)
      | Inr dbx_path \<Rightarrow>
          (case get_metadata E w dbx_path True of
             Inl x \<Rightarrow> Some (Inl x, s, w)
           | Inr md \<Rightarrow>
               if keep_remote_item s dbx_path md
               then lift_rev (update_local_rev dbx_path None s) w ()
               else
                 (case remove E dbx_path
                         (if local_rev s dbx_path \<noteq> Some ''folder'' then local_rev s dbx_path
                          else None) w of
                    Inl (SyncError NotFoundError d l) \<Rightarrow>
                      lift_rev (update_local_rev dbx_path None s) w ()
                  | Inl (SyncError PathError d l) \<Rightarrow>
                      lift_rev (update_local_rev dbx_path None s) w ()
                  | Inl x \<Rightarrow> Some (Inl x, s, w)
                  | Inr w' \<Rightarrow> lift_rev (update_local_rev dbx_path None s) w' ())))"

text \<open>
  The handlers \<^verbatim>\<open>_on_created\<close>, \<^verbatim>\<open>_on_moved\<close> and \<^verbatim>\<open>_on_modified\<close> upload through the
  client, wait until the size of the file has settled, and download the other side of a
  conflict, for which \<^verbatim>\<open>_on_moved\<close> walks the remote folder. What they do to the state and
  to the world is taken as given: they are the fields of a record.
\<close>

record 'w handlers =
  on_created :: "event \<Rightarrow> sync_state \<Rightarrow> 'w \<Rightarrow> ((exn + unit) \<times> sync_state \<times> 'w) option"
  on_moved :: "event \<Rightarrow> sync_state \<Rightarrow> 'w \<Rightarrow> ((exn + unit) \<times> sync_state \<times> 'w) option"
  on_modified :: "event \<Rightarrow> sync_state \<Rightarrow> 'w \<Rightarrow> ((exn + unit) \<times> sync_state \<times> 'w) option"

text \<open>
  \<^verbatim>\<open>_apply_event\<close> without its decorator:
  \<^verbatim>\<open>
  local_path_from = event.src_path
  local_path_to = get_dest_path(event)
  # book keeping
  remove_from_queue(self.queued_for_upload, local_path_to)
  self.clear_sync_error(local_path=local_path_to)
  if local_path_to != local_path_from:
      remove_from_queue(self.queued_for_upload, local_path_from)
      self.clear_sync_error(local_path=local_path_from)
  with InQueue(local_path_to, queue=self.queue_uploading):
      if event.event_type is EVENT_TYPE_CREATED:
          self._on_created(event)
      elif event.event_type is EVENT_TYPE_MOVED:
          with InQueue(local_path_from, queue=self.queue_uploading):
              self._on_moved(event)
      elif event.event_type is EVENT_TYPE_MODIFIED:
          self._on_modified(event)
      elif event.event_type is EVENT_TYPE_DELETED:
          self._on_deleted(event)
  \<close>
\<close>

definition book_keeping :: "string \<Rightarrow> sync_state \<Rightarrow> exn + sync_state" where
  "book_keeping local_path s =
     clear_sync_error (s\<lparr>queued_for_upload := remove1 local_path (queued_for_upload s)\<rparr>)
       (Some local_path) None"

definition apply_event_body ::
  "'w env \<Rightarrow> 'w handlers \<Rightarrow> event \<Rightarrow> sync_state \<Rightarrow> 'w \<Rightarrow> ((exn + unit) \<times> sync_state \<times> 'w) option" where
  "apply_event_body E H e s w =
     (let local_path_from = src_path e; local_path_to = get_dest_path e in
      case book_keeping local_path_to s of
        Inl x \<Rightarrow> Some (Inl x, s\<lparr>queued_for_upload := remove1 local_path_to (queued_for_upload s)\<rparr>, w)
      | Inr s1 \<Rightarrow>
          (case (if local_path_to \<noteq> local_path_from then book_keeping local_path_from s1
                 else Inr s1) of
             Inl x \<Rightarrow>
               Some (Inl x, s1\<lparr>queued_for_upload := remove1 local_path_from (queued_for_upload s1)\<rparr>, w)
           | Inr s2 \<Rightarrow>
               (let s3 = s2\<lparr>queue_uploading := queue_uploading s2 @ [local_path_to]\<rparr> in
                case event_type e of
                  EVENT_TYPE_CREATED \<Rightarrow> on_created H e s3 w
                | EVENT_TYPE_MOVED \<Rightarrow>
                    on_moved H e (s3\<lparr>queue_uploading := queue_uploading s3 @ [local_path_from]\<rparr>) w
                | EVENT_TYPE_MODIFIED \<Rightarrow> on_modified H e s3 w
                | EVENT_TYPE_DELETED \<Rightarrow> on_deleted E e s3 w)))"

text \<open>
  The decorated \<^verbatim>\<open>_apply_event\<close>: \<^verbatim>\<open>True\<close>, or \<^verbatim>\<open>False\<close> after a \<^verbatim>\<open>SyncError\<close>. Its arguments
  hold no metadata, so the decorator leaves \<^verbatim>\<open>download_errors\<close> as it is.
\<close>

definition apply_event ::
  "'w env \<Rightarrow> 'w handlers \<Rightarrow> event \<Rightarrow> sync_state \<Rightarrow> 'w \<Rightarrow> ((exn + bool) \<times> sync_state \<times> 'w) option" where
  "apply_event E H e s w =
     (case apply_event_body E H e s w of
        None \<Rightarrow> None
      | Some (Inr u, s', w') \<Rightarrow> Some (Inr True, s', w')
      | Some (Inl x, s', w') \<Rightarrow>
          (case catch_sync_error E False x s' w' of
             (Inl y, s'', w'') \<Rightarrow> Some (Inl y, s'', w'')
           | (Inr u, s'', w'') \<Rightarrow> Some (Inr False, s'', w'')))"

text \<open>
  The two loops of \<^verbatim>\<open>apply_local_changes\<close> that drop the result, and the pool for the file
  events, modelled as the pool of \<^verbatim>\<open>apply_remote_changes\<close> is:
  \<^verbatim>\<open>
  for event in deleted_events:
      self._apply_event(event)
  \<close>
\<close>

fun apply_events ::
  "'w env \<Rightarrow> 'w handlers \<Rightarrow> event list \<Rightarrow> sync_state \<Rightarrow> 'w
     \<Rightarrow> ((exn + unit) \<times> sync_state \<times> 'w) option" where
  "apply_events E H [] s w = Some (Inr (), s, w)"
| "apply_events E H (e # es) s w =
     (case apply_event E H e s w of
        None \<Rightarrow> None
      | Some (Inl x, s', w') \<Rightarrow> Some (Inl x, s', w')
      | Some (Inr r, s', w') \<Rightarrow> apply_events E H es s' w')"

fun apply_events_pool ::
  "'w env \<Rightarrow> 'w handlers \<Rightarrow> event list \<Rightarrow> sync_state \<Rightarrow> 'w
     \<Rightarrow> ((exn + bool list) \<times> sync_state \<times> 'w) option" where
  "apply_events_pool E H [] s w = Some (Inr [], s, w)"
| "apply_events_pool E H (e # es) s w =
     (case apply_event E H e s w of
        None \<Rightarrow> None
      | Some (r, s', w') \<Rightarrow>
          (case apply_events_pool E H es s' w' of
             None \<Rightarrow> None
           | Some (rs, s'', w'') \<Rightarrow>
               Some ((case r of
                        Inl x \<Rightarrow> Inl x
                      | Inr a \<Rightarrow> (case rs of Inl x \<Rightarrow> Inl x | Inr as \<Rightarrow> Inr (a # as))),
                     s'', w'')))"

text \<open>
  \<^verbatim>\<open>
  def apply_local_changes(self, events, local_cursor):
      events, _ = self._filter_excluded_changes_local(events)
      dir_events, file_events, deleted_events = self._separate_local_event_types(events)
      # sort events (might not be necessary)
      dir_events.sort(key=lambda x: x.src_path.count('/'))
      deleted_events.sort(key=lambda x: x.src_path.count('/'), reverse=True)
      # update queues
      for e in events:
          self.queued_for_upload.put(get_dest_path(e))
      # apply deleted events first, folder created events second
      # neither event type requires an actual upload
      for event in deleted_events:
          self._apply_event(event)
      for event in dir_events:
          self._apply_event(event)
      # apply file events in parallel
      num_threads = os.cpu_count() * 2
      success = []
      (the file events, in a pool; success.append(f.result()))
      if all(success):
          self.last_sync = local_cursor  # save local cursor

  def _separate_local_event_types(events):
      folders = [e for e in events if e.is_directory
                 and e.event_type != EVENT_TYPE_DELETED]
      files = [e for e in events if not e.is_directory
               and e.event_type != EVENT_TYPE_DELETED]
      deleted = [e for e in events if e.event_type == EVENT_TYPE_DELETED]
      return folders, files, deleted
  \<close>
\<close>

definition apply_local_changes ::
  "externals \<Rightarrow> 'w env \<Rightarrow> 'w handlers \<Rightarrow> event list \<Rightarrow> real \<Rightarrow> sync_state \<Rightarrow> 'w
     \<Rightarrow> ((exn + unit) \<times> sync_state \<times> 'w) option" where
  "apply_local_changes X E H events0 local_cursor s w =
     (case filter_excluded_changes_local X events0 s of
        (Inl x, s0) \<Rightarrow> Some (Inl x, s0, w)
      | (Inr (events, excluded), s0) \<Rightarrow>
          (let dir_events = sort_key (\<lambda>x. count_sep (src_path x))
                 (filter (\<lambda>e. is_directory e \<and> event_type e \<noteq> EVENT_TYPE_DELETED) events);
               file_events =
                 filter (\<lambda>e. \<not> is_directory e \<and> event_type e \<noteq> EVENT_TYPE_DELETED) events;
               deleted_events = sort_reverse_key (\<lambda>x. count_sep (src_path x))
                 (filter (\<lambda>e. event_type e = EVENT_TYPE_DELETED) events);
               s1 = s0\<lparr>queued_for_upload := queued_for_upload s0 @ map get_dest_path events\<rparr>
           in bind_res (apply_events E H deleted_events s1 w) (\<lambda>u1 (s2, w2).
              bind_res (apply_events E H dir_events s2 w2) (\<lambda>u2 (s3, w3).
              bind_res (apply_events_pool E H file_events s3 w3) (\<lambda>success (s4, w4).
                Some (Inr (),
                      (if list_all (\<lambda>b. b) success then s4\<lparr>last_sync := local_cursor\<rparr> else s4),
                      w4))))))"

section \<open>A small world for concrete runs\<close>

text \<open>
  A world without state: every path has the ctime \<open>ct\<close> and the content hash \<open>h\<close>, no
  parent directory exists yet, deleting, moving and creating directories succeed, and
  \<open>dl\<close> gives the result of a download from its Dropbox path, the client finds no
  metadata, and \<open>rm\<close> gives the exception that removing a Dropbox path raises, if any.
\<close>

definition example_env_rm ::
  "real \<Rightarrow> string option \<Rightarrow> (string \<Rightarrow> exn + metadata) \<Rightarrow> (string \<Rightarrow> exn option) \<Rightarrow> unit env" where
  "example_env_rm ct h dl rm =
     \<lparr> get_ctime = (\<lambda>w p. ct),
       get_local_hash = (\<lambda>w p. h),
       path_exists_case_insensitive = (\<lambda>w p root. []),
       isdir = (\<lambda>w p. False),
       isfile = (\<lambda>w p. False),
       listdir = (\<lambda>w p. Inl FileNotFoundError),
       delete = (\<lambda>p w. (False, w)),
       makedirs = (\<lambda>p w. Inr w),
       move = (\<lambda>src dst w. Inr w),
       download = (\<lambda>dbx_path local_path w. map_sum id (\<lambda>md. (md, w)) (dl dbx_path)),
       get_metadata = (\<lambda>w dbx_path include_deleted. Inr None),
       remove = (\<lambda>dbx_path parent_rev w. case rm dbx_path of None \<Rightarrow> Inr w | Some x \<Rightarrow> Inl x) \<rparr>"

definition example_env :: "real \<Rightarrow> string option \<Rightarrow> (string \<Rightarrow> exn + metadata) \<Rightarrow> unit env" where
  "example_env ct h dl = example_env_rm ct h dl (\<lambda>p. None)"

text \<open>A state for concrete runs: an empty index, empty queues, the cursor and the time
  stamp of a previous sync, and syncing switched on.\<close>

definition example_state :: sync_state where
  "example_state =
     \<lparr> dropbox_path = ''/home/user/Dropbox'',
       excluded_items = [],
       mignore_rules = [],
       rev_dict_cache = Map.empty,
       last_sync_for_path = Map.empty,
       last_sync = 100,
       last_cursor = ''cursor-1'',
       sync_errors = [],
       download_errors = {},
       pending_downloads = {},
       queued_for_download = [],
       queued_for_upload = [],
       queue_uploading = [],
       queue_downloading = [],
       recent_changes = [],
       syncing = True,
       startup = False,
       local_file_event_queue = [],
       renamed_items_cache = [] \<rparr>"

text \<open>
  The imports for concrete runs: some excluded file names, a case-sensitive file system,
  and no path matched by a mignore pattern.
\<close>

definition example_externals :: externals where
  "example_externals =
     \<lparr> EXCLUDED_FILE_NAMES = [''desktop.ini'', ''thumbs.db'', ''.ds_store'', ''.dropbox''],
       IS_FS_CASE_SENSITIVE = True,
       match_file = (\<lambda>patterns path. False) \<rparr>"

text \<open>Handlers that succeed without any effect.\<close>

definition example_handlers :: "unit handlers" where
  "example_handlers =
     \<lparr> on_created = (\<lambda>e s w. Some (Inr (), s, w)),
       on_moved = (\<lambda>e s w. Some (Inr (), s, w)),
       on_modified = (\<lambda>e s w. Some (Inr (), s, w)) \<rparr>"

section \<open>Properties of the path functions\<close>

lemma path_head_append:
  "path_head (xs @ ys) = (if CHR ''/'' \<in> set ys then xs @ path_head ys else path_head xs)"
  by (auto simp: path_head_def dropWhile_append)

lemma path_head_no_sep:
  assumes "CHR ''/'' \<notin> set s"
  shows "path_head s = []"
proof -
  from assms have "\<forall>c\<in>set (rev s). c \<noteq> CHR ''/''" by fastforce
  then show ?thesis by (simp add: path_head_def)
qed

lemma path_head_prefix: "prefix (path_head q) q"
proof -
  have "suffix (dropWhile (\<lambda>c. c \<noteq> CHR ''/'') (rev q)) (rev q)"
    by (rule suffix_dropWhile)
  then have "prefix (rev (dropWhile (\<lambda>c. c \<noteq> CHR ''/'') (rev q))) (rev (rev q))"
    by (simp only: suffix_to_prefix)
  then show ?thesis
    by (simp add: path_head_def)
qed

lemma rstrip_sep_append:
  "rstrip_sep (xs @ ys) = (if rstrip_sep ys = [] then rstrip_sep xs else xs @ rstrip_sep ys)"
  by (auto simp: rstrip_sep_def dropWhile_append dropWhile_eq_Nil_conv)


lemma rstrip_sep_id: "s \<noteq> [] \<Longrightarrow> last s \<noteq> CHR ''/'' \<Longrightarrow> rstrip_sep s = s"
  unfolding rstrip_sep_def
  by (cases s rule: rev_cases) auto

lemma rstrip_sep_Nil_iff: "rstrip_sep s = [] \<longleftrightarrow> s = replicate (length s) (CHR ''/'')"
proof
  assume "rstrip_sep s = []"
  then have "\<forall>c\<in>set s. c = CHR ''/''"
    by (simp add: rstrip_sep_def dropWhile_eq_Nil_conv)
  then show "s = replicate (length s) (CHR ''/'')"
    by (simp add: replicate_length_same)
next
  assume a: "s = replicate (length s) (CHR ''/'')"
  have "set (replicate (length s) (CHR ''/'')) \<subseteq> {CHR ''/''}"
    by (simp add: set_replicate_conv_if)
  with a have "set s \<subseteq> {CHR ''/''}" by simp
  then show "rstrip_sep s = []"
    by (auto simp: rstrip_sep_def dropWhile_eq_Nil_conv)
qed



lemma not_all_sep:
  assumes "a \<noteq> []" "last a \<noteq> CHR ''/''"
  shows "rstrip_sep (a @ s) \<noteq> []"
proof (cases "rstrip_sep s = []")
  case True
  then have "rstrip_sep (a @ s) = rstrip_sep a"
    by (simp add: rstrip_sep_append)
  also have "\<dots> = a" using assms by (rule rstrip_sep_id)
  finally show ?thesis using assms(1) by simp
next
  case False
  then have "rstrip_sep (a @ s) = a @ rstrip_sep s"
    by (simp add: rstrip_sep_append)
  then show ?thesis using assms(1) by simp
qed

lemma dirname_rstrip:
  "dirname p = (if rstrip_sep (path_head p) = [] then path_head p else rstrip_sep (path_head p))"
proof (cases "rstrip_sep (path_head p) = []")
  case True
  then have "path_head p = replicate (length (path_head p)) (CHR ''/'')"
    by (simp only: rstrip_sep_Nil_iff)
  then have "dirname p = path_head p"
    unfolding dirname_def Let_def by presburger
  with True show ?thesis by simp
next
  case False
  then have n: "path_head p \<noteq> replicate (length (path_head p)) (CHR ''/'')"
    by (simp only: rstrip_sep_Nil_iff not_False_eq_True)
  from False have "path_head p \<noteq> []"
    by (auto simp: rstrip_sep_def)
  with n have "dirname p = rstrip_sep (path_head p)"
    unfolding dirname_def Let_def by presburger
  with False show ?thesis by simp
qed

lemma rstrip_sep_sep: "rstrip_sep ''/'' = []"
  by (simp add: rstrip_sep_def)

lemma path_head_sep_Cons:
  "path_head (CHR ''/'' # t) = CHR ''/'' # (if CHR ''/'' \<in> set t then path_head t else [])"
  using path_head_append[of "''/''" t] by (simp add: path_head_def)


lemma rstrip_sep_shorter:
  assumes "s \<noteq> []" "last s = CHR ''/''"
  shows "length (rstrip_sep s) < length s"
proof -
  from assms obtain ys where s: "s = ys @ ''/''"
    by (cases s rule: rev_cases) auto
  have "length (dropWhile (\<lambda>c. c = CHR ''/'') (rev ys)) \<le> length (rev ys)"
    by (rule length_dropWhile_le)
  then show ?thesis
    unfolding s rstrip_sep_def by simp
qed

lemma path_head_last: "path_head q \<noteq> [] \<Longrightarrow> last (path_head q) = CHR ''/''"
proof -
  assume ne: "path_head q \<noteq> []"
  let ?d = "dropWhile (\<lambda>c. c \<noteq> CHR ''/'') (rev q)"
  from ne have "?d \<noteq> []" by (simp add: path_head_def)
  then have "\<not> (hd ?d \<noteq> CHR ''/'')" by (rule hd_dropWhile)
  moreover have "last (path_head q) = hd ?d"
    using \<open>?d \<noteq> []\<close> by (simp add: path_head_def last_rev)
  ultimately show ?thesis by simp
qed


section \<open>Properties of the revision index\<close>

lemma of_char_lower_char:
  "(of_char (lower_char c) :: nat) =
     (if 65 \<le> (of_char c :: nat) \<and> (of_char c :: nat) \<le> 90 then of_char c + 32 else of_char c)"
  by (simp add: lower_char_def Let_def)

lemma lower_char_sep: "lower_char c = CHR ''/'' \<longleftrightarrow> c = CHR ''/''"
proof -
  have "lower_char c = CHR ''/'' \<longleftrightarrow> (of_char (lower_char c) :: nat) = of_char (CHR ''/'')"
    by (simp only: of_char_eq_iff)
  also have "\<dots> \<longleftrightarrow> (of_char c :: nat) = of_char (CHR ''/'')"
    unfolding of_char_lower_char by simp
  also have "\<dots> \<longleftrightarrow> c = CHR ''/''"
    by (simp only: of_char_eq_iff)
  finally show ?thesis .
qed

lemma dbx_path_ok_lower: "dbx_path_ok (lower p) = dbx_path_ok p"
  by (cases p rule: dbx_path_ok.cases) (simp_all add: lower_def lower_char_sep)








lemma dirname_root: "dirname ''/'' = ''/''"
  by (simp add: dirname_def path_head_def)

lemma dbx_path_ok_dirname:
  assumes "dbx_path_ok p"
  shows "dbx_path_ok (dirname p) \<and> (p \<noteq> ''/'' \<longrightarrow> length (dirname p) < length p)"
proof (cases "p = ''/''")
  case True
  then show ?thesis by (simp add: dirname_root)
next
  case False
  with assms obtain c cs where p: "p = CHR ''/'' # c # cs" and c: "c \<noteq> CHR ''/''"
    by (cases p rule: dbx_path_ok.cases) auto
  show ?thesis
  proof (cases "CHR ''/'' \<in> set (c # cs)")
    case no: False
    then have "path_head p = ''/''"
      unfolding p by (simp only: path_head_sep_Cons if_False)
    then have "dirname p = ''/''"
      by (simp add: dirname_rstrip rstrip_sep_sep)
    then show ?thesis by (simp add: p)
  next
    case yes: True
    then have h: "path_head p = CHR ''/'' # path_head (c # cs)"
      unfolding p by (simp only: path_head_sep_Cons if_True)
    from yes have "path_head (c # cs) \<noteq> []"
      by (auto simp: path_head_def dropWhile_eq_Nil_conv)
    moreover have "prefix (path_head (c # cs)) (c # cs)" by (rule path_head_prefix)
    ultimately obtain h' where h': "path_head (c # cs) = c # h'"
      by (cases "path_head (c # cs)") (auto simp: prefix_def)
    have head: "path_head p = [CHR ''/'', c] @ h'" by (simp add: h h')
    have ne: "rstrip_sep (path_head p) \<noteq> []"
      unfolding head using c by (intro not_all_sep) simp_all
    then have d: "dirname p = rstrip_sep (path_head p)" by (simp add: dirname_rstrip)
    have two: "rstrip_sep [CHR ''/'', c] = [CHR ''/'', c]"
      using c by (intro rstrip_sep_id) simp_all
    have "rstrip_sep ([CHR ''/'', c] @ h') =
        (if rstrip_sep h' = [] then rstrip_sep [CHR ''/'', c] else [CHR ''/'', c] @ rstrip_sep h')"
      by (rule rstrip_sep_append)
    then have "\<exists>r. dirname p = CHR ''/'' # c # r"
      unfolding d head two by (cases "rstrip_sep h' = []") simp_all
    then have ok: "dbx_path_ok (dirname p)" using c by auto
    have "path_head p \<noteq> []" by (simp add: head)
    moreover from this have "last (path_head p) = CHR ''/''" by (rule path_head_last)
    ultimately have "length (rstrip_sep (path_head p)) < length (path_head p)"
      by (rule rstrip_sep_shorter)
    moreover have "length (path_head p) \<le> length p"
      using path_head_prefix by (rule prefix_length_le)
    ultimately have "length (dirname p) < length p" unfolding d by simp
    with ok show ?thesis by simp
  qed
qed

lemma set_parent_revs_returns:
  "dbx_path_ok d \<Longrightarrow> \<exists>y. set_parent_revs d idx = Some y"
proof (induction "length d" arbitrary: d idx rule: less_induct)
  case less
  show ?case
  proof (cases "d = ''/''")
    case True
    then show ?thesis by (subst set_parent_revs.simps) simp
  next
    case False
    from less.prems have "dbx_path_ok (dirname d)" and "length (dirname d) < length d"
      using dbx_path_ok_dirname[of d] False by simp_all
    then have "\<exists>y. set_parent_revs (dirname d) (idx(d \<mapsto> ''folder'')) = Some y"
      using less.hyps by blast
    then show ?thesis using False by (subst set_parent_revs.simps) simp
  qed
qed


lemma set_parent_revs_keeps_folder:
  assumes "set_parent_revs d idx = Some y" and "idx q = Some ''folder''"
  shows "y q = Some ''folder''"
proof -
  have "idx q = Some ''folder'' \<longrightarrow> y q = Some ''folder''"
  proof (rule set_parent_revs.raw_induct
      [where P = "\<lambda>d idx y. idx q = Some ''folder'' \<longrightarrow> y q = Some ''folder''"
        and d = d and idx = idx and y = y])
    show "set_parent_revs d idx = Some y" by fact
  next
    fix f :: "string \<Rightarrow> rev_dict \<Rightarrow> rev_dict option" and d idx y
    assume IH: "\<And>d idx y. f d idx = Some y \<Longrightarrow> idx q = Some ''folder'' \<longrightarrow> y q = Some ''folder''"
      and eq: "(if d = ''/'' then Some idx else f (dirname d) (idx(d \<mapsto> ''folder''))) = Some y"
    show "idx q = Some ''folder'' \<longrightarrow> y q = Some ''folder''"
    proof (cases "d = ''/''")
      case True
      with eq show ?thesis by simp
    next
      case False
      with eq have "f (dirname d) (idx(d \<mapsto> ''folder'')) = Some y" by simp
      then have "(idx(d \<mapsto> ''folder'')) q = Some ''folder'' \<longrightarrow> y q = Some ''folder''" by (rule IH)
      then show ?thesis by (simp split: if_splits)
    qed
  qed
  with assms(2) show ?thesis by simp
qed



lemma startswith_prefix: "startswith s p \<longleftrightarrow> prefix p s"
proof
  assume "startswith s p"
  then have "take (length p) s = p" by (simp add: startswith_def)
  moreover have "prefix (take (length p) s) s" by (rule take_is_prefix)
  ultimately show "prefix p s" by simp
next
  assume "prefix p s"
  then obtain t where "s = p @ t" by (auto simp: prefix_def)
  then show "startswith s p" by (simp add: startswith_def)
qed


lemma set_local_rev_unfold:
  "set_local_rev p new_rev idx =
     (if new_rev = idx (lower p) then Some idx
      else case new_rev of
        None \<Rightarrow> Some (\<lambda>path. if startswith path (lower p) then None else idx path)
      | Some r \<Rightarrow> set_parent_revs (dirname (lower p)) (idx(lower p \<mapsto> r)))"
  by (simp add: set_local_rev_def Let_def)






lemma set_local_rev_Some_returns:
  assumes "dbx_path_ok p"
  shows "\<exists>idx'. set_local_rev p (Some r) idx = Some idx'"
proof -
  from assms have "dbx_path_ok (lower p)" by (simp add: dbx_path_ok_lower)
  then have "dbx_path_ok (dirname (lower p))" using dbx_path_ok_dirname by blast
  then have "\<exists>y. set_parent_revs (dirname (lower p)) (idx(lower p \<mapsto> r)) = Some y"
    by (rule set_parent_revs_returns)
  then show ?thesis by (auto simp: set_local_rev_unfold)
qed





section \<open>Claims about the revision index\<close>

text \<open>
  Claim C4. Clearing the rev of a folder \<open>p\<close> is claimed to remove \<open>p\<close> and its descendants
  and to leave every other entry, such as a sibling whose name begins with \<open>p\<close>, unchanged.
  The code removes every key that has \<open>p\<close> as a string prefix: clearing \<^verbatim>\<open>/foo\<close> in an
  index that holds the folder \<^verbatim>\<open>/foo\<close> and the file \<^verbatim>\<open>/foobar\<close> leaves the empty index.
\<close>

theorem set_local_rev_clear_removes_sibling:
  "set_local_rev ''/foo'' None [''/foo'' \<mapsto> ''folder'', ''/foobar'' \<mapsto> ''r1''] = Some Map.empty"
  by (auto simp: set_local_rev_unfold lower_def lower_char_def startswith_def fun_eq_iff)




section \<open>Properties of conflict detection\<close>

lemma set_parent_revs_long_keys:
  assumes "dbx_path_ok d" "set_parent_revs d idx = Some y" "length d < length q"
  shows "y q = idx q"
  using assms
proof (induction "length d" arbitrary: d idx rule: less_induct)
  case less
  show ?case
  proof (cases "d = ''/''")
    case True
    with less.prems(2) show ?thesis by (subst (asm) set_parent_revs.simps) simp
  next
    case False
    from less.prems(1) False have ok: "dbx_path_ok (dirname d)"
      and len: "length (dirname d) < length d"
      using dbx_path_ok_dirname[of d] by simp_all
    from less.prems(2) False
    have call: "set_parent_revs (dirname d) (idx(d \<mapsto> ''folder'')) = Some y"
      by (subst (asm) set_parent_revs.simps) simp
    from len less.prems(3) have "length (dirname d) < length q" by simp
    with less.hyps[OF len ok call] have "y q = (idx(d \<mapsto> ''folder'')) q" by simp
    moreover from less.prems(3) have "q \<noteq> d" by auto
    ultimately show ?thesis by simp
  qed
qed

lemma set_local_rev_Some_value:
  assumes ok: "dbx_path_ok p" and res: "set_local_rev p (Some r) idx = Some idx'"
  shows "idx' (lower p) = Some r"
proof (cases "idx (lower p) = Some r")
  case True
  with res show ?thesis by (auto simp: set_local_rev_unfold)
next
  case False
  with res have loop: "set_parent_revs (dirname (lower p)) (idx(lower p \<mapsto> r)) = Some idx'"
    by (auto simp: set_local_rev_unfold)
  from ok have okl: "dbx_path_ok (lower p)" by (simp add: dbx_path_ok_lower)
  show ?thesis
  proof (cases "lower p = ''/''")
    case True
    with loop have "idx' = idx(lower p \<mapsto> r)"
      by (subst (asm) set_parent_revs.simps) (simp add: dirname_root)
    then show ?thesis by simp
  next
    case False
    with okl have "dbx_path_ok (dirname (lower p))" "length (dirname (lower p)) < length (lower p)"
      using dbx_path_ok_dirname[of "lower p"] by simp_all
    from set_parent_revs_long_keys[OF this(1) loop this(2)] show ?thesis by simp
  qed
qed

section \<open>Claims about conflict detection\<close>

text \<open>
  Claim C3. The verdicts are claimed to be four pairwise distinct values. In the code
  \<^verbatim>\<open>Identical\<close> and \<^verbatim>\<open>LocalNewerOrIdentical\<close> both have the value 2, so they are one
  member of the enumeration, which has three members: for an entry whose rev is the rev
  in the index, the check returns \<^verbatim>\<open>Conflict.LocalNewerOrIdentical\<close>, and that is
  \<^verbatim>\<open>Conflict.Identical\<close>.
\<close>

theorem conflict_enum_alias:
  "Conflict_LocalNewerOrIdentical = Conflict_Identical
   \<and> card {Conflict_RemoteNewer, Conflict_Conflict, Conflict_Identical,
            Conflict_LocalNewerOrIdentical} = 3
   \<and> check_download_conflict (example_env 150 (Some ''hash1'') (\<lambda>p. Inl OtherError))
         (FileMetadata ''/Docs/a.txt'' ''/docs/a.txt'' ''0123456789'' ''hash1'' 90)
         (example_state\<lparr>rev_dict_cache := [''/docs/a.txt'' \<mapsto> ''0123456789'']\<rparr>) ()
       = Some (Conflict_Identical,
               example_state\<lparr>rev_dict_cache := [''/docs/a.txt'' \<mapsto> ''0123456789'']\<rparr>)"
proof -
  have "lower ''/docs/a.txt'' = ''/docs/a.txt''"
    by (simp add: lower_def lower_char_def)
  then show ?thesis
    by (simp add: Conflict_RemoteNewer_def Conflict_Conflict_def Conflict_Identical_def
      Conflict_LocalNewerOrIdentical_def check_download_conflict_def local_rev_def
      get_local_rev_def)
qed

text \<open>
  Claim C5. For metadata as the Dropbox API delivers it, the conflict check applies its
  rules in this order: equal revs give \<^verbatim>\<open>LocalNewerOrIdentical\<close>; otherwise a local ctime
  of at most \<^verbatim>\<open>get_last_sync_for_path\<close> gives \<^verbatim>\<open>RemoteNewer\<close>; otherwise a deletion
  gives \<^verbatim>\<open>LocalNewerOrIdentical\<close>; otherwise a local content hash equal to the remote
  hash gives \<^verbatim>\<open>Identical\<close>, and the check returns with the remote rev recorded in the
  index and nothing else changed; otherwise the verdict is \<^verbatim>\<open>Conflict\<close>. In every case but
  the fourth the state is unchanged.
\<close>

theorem check_download_conflict_rules:
  assumes ok: "metadata_ok md"
  shows "(remote_rev md = local_rev s (path_lower md) \<longrightarrow>
            check_download_conflict E md s w = Some (Conflict_LocalNewerOrIdentical, s))
    \<and> (remote_rev md \<noteq> local_rev s (path_lower md)
         \<and> get_ctime E w (to_local_path E s w (path_display md)) \<le> get_last_sync_for_path s (path_lower md) \<longrightarrow>
            check_download_conflict E md s w = Some (Conflict_RemoteNewer, s))
    \<and> (remote_rev md \<noteq> local_rev s (path_lower md)
         \<and> \<not> get_ctime E w (to_local_path E s w (path_display md)) \<le> get_last_sync_for_path s (path_lower md)
         \<and> is_deleted md \<longrightarrow>
            check_download_conflict E md s w = Some (Conflict_LocalNewerOrIdentical, s))
    \<and> (remote_rev md \<noteq> local_rev s (path_lower md)
         \<and> \<not> get_ctime E w (to_local_path E s w (path_display md)) \<le> get_last_sync_for_path s (path_lower md)
         \<and> \<not> is_deleted md
         \<and> get_local_hash E w (to_local_path E s w (path_display md)) = remote_hash md \<longrightarrow>
            (\<exists>idx. check_download_conflict E md s w = Some (Conflict_Identical, s\<lparr>rev_dict_cache := idx\<rparr>)
               \<and> idx (lower (path_lower md)) = remote_rev md))
    \<and> (remote_rev md \<noteq> local_rev s (path_lower md)
         \<and> \<not> get_ctime E w (to_local_path E s w (path_display md)) \<le> get_last_sync_for_path s (path_lower md)
         \<and> \<not> is_deleted md
         \<and> get_local_hash E w (to_local_path E s w (path_display md)) \<noteq> remote_hash md \<longrightarrow>
            check_download_conflict E md s w = Some (Conflict_Conflict, s))"
proof -
  from ok have pok: "dbx_path_ok (path_lower md)" and rne: "remote_rev md \<noteq> Some []"
    by (simp_all add: metadata_ok_def)
  have del: "remote_rev md = None \<longleftrightarrow> is_deleted md"
    by (cases md) simp_all
  have ident: "\<exists>idx. update_local_rev (path_lower md) (remote_rev md) s = Some (s\<lparr>rev_dict_cache := idx\<rparr>)
      \<and> idx (lower (path_lower md)) = remote_rev md" if "\<not> is_deleted md"
  proof -
    from that del obtain r where r: "remote_rev md = Some r" by (cases "remote_rev md") auto
    from pok obtain idx where idx: "set_local_rev (path_lower md) (Some r) (rev_dict_cache s) = Some idx"
      using set_local_rev_Some_returns by blast
    with pok have a: "idx (lower (path_lower md)) = Some r" by (rule set_local_rev_Some_value)
    from idx r
    have b: "update_local_rev (path_lower md) (remote_rev md) s = Some (s\<lparr>rev_dict_cache := idx\<rparr>)"
      by (simp add: update_local_rev_def)
    show ?thesis using a b r by (intro exI[of _ idx]) simp
  qed
  let ?lp = "to_local_path E s w (path_display md)"
  let ?res = "check_download_conflict E md s w"
  have c1: "?res = Some (Conflict_LocalNewerOrIdentical, s)"
    if "remote_rev md = local_rev s (path_lower md)"
    using that by (simp add: check_download_conflict_def Let_def)
  have c2: "?res = Some (Conflict_RemoteNewer, s)"
    if "remote_rev md \<noteq> local_rev s (path_lower md)"
      "get_ctime E w ?lp \<le> get_last_sync_for_path s (path_lower md)"
    using that by (simp add: check_download_conflict_def Let_def)
  have c3: "?res = Some (Conflict_LocalNewerOrIdentical, s)"
    if "remote_rev md \<noteq> local_rev s (path_lower md)"
      "\<not> get_ctime E w ?lp \<le> get_last_sync_for_path s (path_lower md)" "is_deleted md"
  proof -
    from that(3) del have "remote_rev md = None" by simp
    with that(1,2) show ?thesis by (simp add: check_download_conflict_def Let_def)
  qed
  have c4: "\<exists>idx. ?res = Some (Conflict_Identical, s\<lparr>rev_dict_cache := idx\<rparr>)
               \<and> idx (lower (path_lower md)) = remote_rev md"
    if "remote_rev md \<noteq> local_rev s (path_lower md)"
      "\<not> get_ctime E w ?lp \<le> get_last_sync_for_path s (path_lower md)" "\<not> is_deleted md"
      "get_local_hash E w ?lp = remote_hash md"
  proof -
    from that(3) del have n: "remote_rev md \<noteq> None" by simp
    from ident[OF that(3)] obtain idx
      where u: "update_local_rev (path_lower md) (remote_rev md) s = Some (s\<lparr>rev_dict_cache := idx\<rparr>)"
        and v: "idx (lower (path_lower md)) = remote_rev md" by blast
    from that(1,2,4) n rne u
    have "?res = Some (Conflict_Identical, s\<lparr>rev_dict_cache := idx\<rparr>)"
      by (simp add: check_download_conflict_def Let_def del: not_None_eq)
    with v show ?thesis by (intro exI[of _ idx] conjI)
  qed
  have c5: "?res = Some (Conflict_Conflict, s)"
    if "remote_rev md \<noteq> local_rev s (path_lower md)"
      "\<not> get_ctime E w ?lp \<le> get_last_sync_for_path s (path_lower md)" "\<not> is_deleted md"
      "get_local_hash E w ?lp \<noteq> remote_hash md"
  proof -
    from that(3) del have n: "remote_rev md \<noteq> None" by simp
    from that(1,2,4) n rne show ?thesis
      by (simp add: check_download_conflict_def Let_def del: not_None_eq)
  qed
  show ?thesis
  proof (intro conjI impI)
    assume "remote_rev md = local_rev s (path_lower md)"
    then show "?res = Some (Conflict_LocalNewerOrIdentical, s)" by (rule c1)
  next
    assume "remote_rev md \<noteq> local_rev s (path_lower md)
         \<and> get_ctime E w ?lp \<le> get_last_sync_for_path s (path_lower md)"
    then show "?res = Some (Conflict_RemoteNewer, s)" using c2 by simp
  next
    assume "remote_rev md \<noteq> local_rev s (path_lower md)
         \<and> \<not> get_ctime E w ?lp \<le> get_last_sync_for_path s (path_lower md)
         \<and> is_deleted md"
    then show "?res = Some (Conflict_LocalNewerOrIdentical, s)" using c3 by simp
  next
    assume "remote_rev md \<noteq> local_rev s (path_lower md)
         \<and> \<not> get_ctime E w ?lp \<le> get_last_sync_for_path s (path_lower md)
         \<and> \<not> is_deleted md
         \<and> get_local_hash E w ?lp = remote_hash md"
    then show "\<exists>idx. ?res = Some (Conflict_Identical, s\<lparr>rev_dict_cache := idx\<rparr>)
               \<and> idx (lower (path_lower md)) = remote_rev md" using c4 by simp
  next
    assume "remote_rev md \<noteq> local_rev s (path_lower md)
         \<and> \<not> get_ctime E w ?lp \<le> get_last_sync_for_path s (path_lower md)
         \<and> \<not> is_deleted md
         \<and> get_local_hash E w ?lp \<noteq> remote_hash md"
    then show "?res = Some (Conflict_Conflict, s)" using c5 by simp
  qed
qed

text \<open>
  Claim C5 at concrete entries, one for each rule: a file whose rev is in the index; a
  file that is new to the index, with an older local item, with a newer local item of
  equal content and with a newer local item of other content; and a deletion of an
  indexed file that was changed locally.
\<close>

theorem check_download_conflict_rules_witness:
  "(metadata_ok (FileMetadata ''/Docs/a.txt'' ''/docs/a.txt'' ''0123456789'' ''hash1'' 90)
    \<and> check_download_conflict (example_env 150 (Some ''hash1'') (\<lambda>p. Inl OtherError))
         (FileMetadata ''/Docs/a.txt'' ''/docs/a.txt'' ''0123456789'' ''hash1'' 90)
         (example_state\<lparr>rev_dict_cache := [''/docs/a.txt'' \<mapsto> ''0123456789'']\<rparr>) ()
       = Some (Conflict_LocalNewerOrIdentical,
               example_state\<lparr>rev_dict_cache := [''/docs/a.txt'' \<mapsto> ''0123456789'']\<rparr>))
   \<and> check_download_conflict (example_env 50 (Some ''hash2'') (\<lambda>p. Inl OtherError))
         (FileMetadata ''/Docs/a.txt'' ''/docs/a.txt'' ''0123456789'' ''hash1'' 90) example_state ()
       = Some (Conflict_RemoteNewer, example_state)
   \<and> (metadata_ok (DeletedMetadata ''/Docs/a.txt'' ''/docs/a.txt'')
    \<and> check_download_conflict (example_env 150 (Some ''hash2'') (\<lambda>p. Inl OtherError))
         (DeletedMetadata ''/Docs/a.txt'' ''/docs/a.txt'')
         (example_state\<lparr>rev_dict_cache := [''/docs/a.txt'' \<mapsto> ''0123456789'']\<rparr>) ()
       = Some (Conflict_LocalNewerOrIdentical,
               example_state\<lparr>rev_dict_cache := [''/docs/a.txt'' \<mapsto> ''0123456789'']\<rparr>))
   \<and> (\<exists>idx. check_download_conflict (example_env 150 (Some ''hash1'') (\<lambda>p. Inl OtherError))
         (FileMetadata ''/Docs/a.txt'' ''/docs/a.txt'' ''0123456789'' ''hash1'' 90) example_state ()
       = Some (Conflict_Identical, example_state\<lparr>rev_dict_cache := idx\<rparr>)
       \<and> idx ''/docs/a.txt'' = Some ''0123456789'')
   \<and> check_download_conflict (example_env 150 (Some ''hash2'') (\<lambda>p. Inl OtherError))
         (FileMetadata ''/Docs/a.txt'' ''/docs/a.txt'' ''0123456789'' ''hash1'' 90) example_state ()
       = Some (Conflict_Conflict, example_state)"
proof -
  let ?md = "FileMetadata ''/Docs/a.txt'' ''/docs/a.txt'' ''0123456789'' ''hash1'' 90"
  let ?del = "DeletedMetadata ''/Docs/a.txt'' ''/docs/a.txt''"
  let ?s1 = "example_state\<lparr>rev_dict_cache := [''/docs/a.txt'' \<mapsto> ''0123456789'']\<rparr>"
  let ?E = "\<lambda>ct h. example_env ct (Some h) (\<lambda>p. Inl OtherError)"
  have ok: "metadata_ok ?md" and okd: "metadata_ok ?del"
    by (simp_all add: metadata_ok_def)
  have l: "lower ''/docs/a.txt'' = ''/docs/a.txt''"
    by (simp add: lower_def lower_char_def)
  have r0: "local_rev example_state ''/docs/a.txt'' = None"
    by (simp add: local_rev_def get_local_rev_def example_state_def)
  have r1: "local_rev ?s1 ''/docs/a.txt'' = Some ''0123456789''"
    by (simp add: local_rev_def get_local_rev_def l)
  have g0: "get_last_sync_for_path example_state ''/docs/a.txt'' = 100"
    by (simp add: get_last_sync_for_path_def example_state_def)
  have g1: "get_last_sync_for_path ?s1 ''/docs/a.txt'' = 100"
    by (simp add: get_last_sync_for_path_def example_state_def)
  have ct: "get_ctime (?E c h) w p = c" and lh: "get_local_hash (?E c h) w p = Some h" for c h w p
    by (simp_all add: example_env_def example_env_rm_def)
  note thm1 = check_download_conflict_rules[OF ok, of ?s1 "?E 150 ''hash1''" "()"]
  note thm2 = check_download_conflict_rules[OF ok, of example_state "?E 50 ''hash2''" "()"]
  note thm3 = check_download_conflict_rules[OF okd, of ?s1 "?E 150 ''hash2''" "()"]
  note thm4 = check_download_conflict_rules[OF ok, of example_state "?E 150 ''hash1''" "()"]
  note thm5 = check_download_conflict_rules[OF ok, of example_state "?E 150 ''hash2''" "()"]
  from thm1 have b1: "check_download_conflict (?E 150 ''hash1'') ?md ?s1 ()
       = Some (Conflict_LocalNewerOrIdentical, ?s1)" by (simp add: r1)
  from thm2 have b2: "check_download_conflict (?E 50 ''hash2'') ?md example_state ()
       = Some (Conflict_RemoteNewer, example_state)" by (simp add: r0 g0 ct)
  from thm3 have b3: "check_download_conflict (?E 150 ''hash2'') ?del ?s1 ()
       = Some (Conflict_LocalNewerOrIdentical, ?s1)" by (simp add: r1 g1 ct)
  from thm4 have b4: "\<exists>idx. check_download_conflict (?E 150 ''hash1'') ?md example_state ()
       = Some (Conflict_Identical, example_state\<lparr>rev_dict_cache := idx\<rparr>)
       \<and> idx ''/docs/a.txt'' = Some ''0123456789''" by (simp add: r0 g0 ct lh l)
  from thm5 have b5: "check_download_conflict (?E 150 ''hash2'') ?md example_state ()
       = Some (Conflict_Conflict, example_state)" by (simp add: r0 g0 ct lh)
  from ok okd b1 b2 b3 b4 b5 show ?thesis by (intro conjI)
qed

text \<open>
  Claim C10. \<^verbatim>\<open>get_last_sync_for_path\<close> returns the maximum of the time stamp stored
  for the path (\<^verbatim>\<open>0.0\<close> if none is stored) and \<^verbatim>\<open>last_sync\<close>, so it is never smaller
  than \<^verbatim>\<open>last_sync\<close>; after \<^verbatim>\<open>set_last_sync_for_path(p, t)\<close> it is the maximum of \<open>t\<close>
  and \<^verbatim>\<open>last_sync\<close>. Consequently the conflict check, which compares the local ctime
  with this value, answers \<^verbatim>\<open>RemoteNewer\<close> for an entry with a new rev whenever the local
  ctime is at most \<^verbatim>\<open>last_sync\<close>.
\<close>

theorem get_last_sync_for_path_max:
  "get_last_sync_for_path s p =
      max (case last_sync_for_path s (lower p) of None \<Rightarrow> 0 | Some t \<Rightarrow> t) (last_sync s)
   \<and> last_sync s \<le> get_last_sync_for_path s p
   \<and> get_last_sync_for_path (set_last_sync_for_path p t s) p = max t (last_sync s)
   \<and> (remote_rev md \<noteq> local_rev s (path_lower md)
        \<and> get_ctime E w (to_local_path E s w (path_display md)) \<le> last_sync s \<longrightarrow>
       check_download_conflict E md s w = Some (Conflict_RemoteNewer, s))"
proof -
  have 1: "get_last_sync_for_path s p =
      max (case last_sync_for_path s (lower p) of None \<Rightarrow> 0 | Some t \<Rightarrow> t) (last_sync s)"
    by (simp add: get_last_sync_for_path_def)
  have 2: "last_sync s \<le> get_last_sync_for_path s q" for q
    by (simp add: get_last_sync_for_path_def)
  have 3: "get_last_sync_for_path (set_last_sync_for_path p t s) p = max t (last_sync s)"
    by (simp add: get_last_sync_for_path_def set_last_sync_for_path_def)
  have 4: "check_download_conflict E md s w = Some (Conflict_RemoteNewer, s)"
    if "remote_rev md \<noteq> local_rev s (path_lower md)"
      "get_ctime E w (to_local_path E s w (path_display md)) \<le> last_sync s"
  proof -
    from that(2) 2[of "path_lower md"]
    have "get_ctime E w (to_local_path E s w (path_display md))
        \<le> get_last_sync_for_path s (path_lower md)" by (rule order_trans)
    with that(1) show ?thesis by (simp add: check_download_conflict_def Let_def)
  qed
  from 1 2 3 4 show ?thesis by (intro conjI impI) simp_all
qed

text \<open>
  Claim C10 at a concrete state: \<^verbatim>\<open>last_sync\<close> is 100, the path has the time stamp 40,
  and the local item has the ctime 50.
\<close>

theorem get_last_sync_for_path_max_witness:
  "get_last_sync_for_path (set_last_sync_for_path ''/Docs/a.txt'' 40 example_state) ''/docs/a.txt'' = 100
   \<and> check_download_conflict (example_env 50 (Some ''hash2'') (\<lambda>p. Inl OtherError))
         (FileMetadata ''/Docs/a.txt'' ''/docs/a.txt'' ''0123456789'' ''hash1'' 90)
         (set_last_sync_for_path ''/Docs/a.txt'' 40 example_state) ()
       = Some (Conflict_RemoteNewer, set_last_sync_for_path ''/Docs/a.txt'' 40 example_state)"
proof -
  let ?s = "set_last_sync_for_path ''/Docs/a.txt'' 40 example_state"
  let ?E = "example_env 50 (Some ''hash2'') (\<lambda>p. Inl OtherError)"
  let ?md = "FileMetadata ''/Docs/a.txt'' ''/docs/a.txt'' ''0123456789'' ''hash1'' 90"
  have l: "lower ''/docs/a.txt'' = ''/docs/a.txt''"
    by (simp add: lower_def lower_char_def)
  have ls: "last_sync ?s = 100" and ix: "rev_dict_cache ?s = Map.empty"
    by (simp_all add: set_last_sync_for_path_def example_state_def)
  have st: "last_sync_for_path ?s ''/docs/a.txt'' = Some 40"
  proof -
    have "lower ''/Docs/a.txt'' = ''/docs/a.txt''" by code_simp
    then show ?thesis by (simp add: set_last_sync_for_path_def example_state_def)
  qed
  have h1: "remote_rev ?md \<noteq> local_rev ?s (path_lower ?md)"
    by (simp add: local_rev_def get_local_rev_def ix)
  have h2: "get_ctime ?E () (to_local_path ?E ?s () (path_display ?md)) \<le> last_sync ?s"
    by (simp add: ls) (simp add: example_env_def example_env_rm_def)
  from get_last_sync_for_path_max[of ?s "''/docs/a.txt''" 0 ?md ?E "()"] h1 h2 st ls l
  show ?thesis by simp
qed

section \<open>Claims about cleaning up local events\<close>

text \<open>
  Claim C2. The output of \<^verbatim>\<open>_clean_local_events\<close> is claimed to hold at most one event for
  each path, a delete-then-create pair for a change of kind apart, and exactly one created
  event for a history with more created than deleted events. The code gives two events
  for the history of a new file that was written to after its creation: a created and a
  modified event. The second \<^verbatim>\<open>if\<close> of the loop over the histories is not an \<^verbatim>\<open>elif\<close>, so its
  \<^verbatim>\<open>else\<close> branch runs after the created event has been emitted.
\<close>

theorem clean_local_events_two_events:
  "clean_local_events example_externals remdups example_state
     [FileCreatedEvent ''/home/user/Dropbox/a.txt'', FileModifiedEvent ''/home/user/Dropbox/a.txt'']
   = Inr [FileCreatedEvent ''/home/user/Dropbox/a.txt'',
          FileModifiedEvent ''/home/user/Dropbox/a.txt'']"
  by (simp add: clean_local_events_def split_moved_event_def first_idx_def Let_def)

text \<open>
  Claim C8. Cleaning up is claimed to be idempotent. For a directory that was deleted and
  a file that was then created at its path and reported twice, the code returns a created,
  a deleted and a created event; cleaning up this output returns a single created event.
  The first output comes from the same \<^verbatim>\<open>else\<close> branch as in claim C2.
\<close>

theorem clean_up_not_idempotent:
  "wait_for_local_changes_clean example_externals remdups example_state
     [DirDeletedEvent ''/home/user/Dropbox/a'', FileCreatedEvent ''/home/user/Dropbox/a'',
      FileCreatedEvent ''/home/user/Dropbox/a'']
   = Inr [FileCreatedEvent ''/home/user/Dropbox/a'', DirDeletedEvent ''/home/user/Dropbox/a'',
          FileCreatedEvent ''/home/user/Dropbox/a'']
   \<and> wait_for_local_changes_clean example_externals remdups example_state
     [FileCreatedEvent ''/home/user/Dropbox/a'', DirDeletedEvent ''/home/user/Dropbox/a'',
      FileCreatedEvent ''/home/user/Dropbox/a'']
   = Inr [FileCreatedEvent ''/home/user/Dropbox/a'']"
  by (simp add: wait_for_local_changes_clean_def clean_local_events_def split_moved_event_def
      first_idx_def combine_events_def is_dir_moved_def is_dir_deleted_def is_deleted_child_def
      is_child_def list_diff_def startswith_def rstrip_sep_def Let_def)

section \<open>Claims about the handler of local file events\<close>

lemma lower_char_idem: "lower_char (lower_char c) = lower_char c"
proof -
  have "(of_char (lower_char (lower_char c)) :: nat) = of_char (lower_char c)"
    unfolding of_char_lower_char[of "lower_char c"]
    by (simp add: of_char_lower_char)
  then show ?thesis by (simp only: of_char_eq_iff)
qed

lemma lower_idem: "lower (lower s) = lower s"
  by (simp add: lower_def lower_char_idem)

lemma lower_append: "lower (xs @ ys) = lower xs @ lower ys"
  by (simp add: lower_def)

lemma lower_rstrip_sep: "rstrip_sep (lower s) = lower (rstrip_sep s)"
proof -
  have "dropWhile (\<lambda>c. c = CHR ''/'') (map lower_char xs)
      = map lower_char (dropWhile (\<lambda>c. c = CHR ''/'') xs)" for xs
    by (induction xs) (simp_all add: lower_char_sep)
  then show ?thesis
    by (simp add: rstrip_sep_def lower_def rev_map)
qed

lemma is_child_lower_parent:
  assumes "is_child (lower sub) parent"
  shows "is_child (lower sub) (lower parent)"
proof -
  let ?p = "rstrip_sep parent @ ''/''"
  from assms have pre: "prefix ?p (lower sub)" and len: "length ?p < length (lower sub)"
    by (simp_all add: is_child_def Let_def startswith_prefix)
  from pre obtain t where t: "lower sub = ?p @ t" by (auto simp: prefix_def)
  have "lower (?p @ t) = ?p @ t"
    using lower_idem[of sub] unfolding t .
  then have eq: "lower ?p @ lower t = ?p @ t"
    by (simp only: lower_append)
  have "length (lower ?p) = length ?p"
    by (simp add: lower_def)
  then have "(lower ?p @ lower t = ?p @ t) = (lower ?p = ?p \<and> lower t = t)"
    by (intro append_eq_append_conv disjI1)
  with eq have "lower ?p = ?p" by (rule iffD1[THEN conjunct1, rotated])
  then have "lower (rstrip_sep parent) = rstrip_sep parent"
    by (simp add: lower_def)
  then have "rstrip_sep (lower parent) = rstrip_sep parent"
    by (simp add: lower_rstrip_sep)
  with assms show ?thesis
    by (simp add: is_child_def Let_def)
qed

text \<open>
  Claim C9. When the \<^verbatim>\<open>src_path\<close> of a raw event, in lower case, equals a path of
  \<^verbatim>\<open>queue_downloading\<close> or is a child of it, whether that path is taken as it is or in
  lower case, \<^verbatim>\<open>on_any_event\<close> returns without any effect: the queue of local file events
  receives no entry, and no file is renamed.
\<close>

theorem on_any_event_drops_downloading:
  assumes "p \<in> set (queue_downloading s)"
    and "lower (src_path e) = lower p \<or> is_child (lower (src_path e)) (lower p)
       \<or> lower (src_path e) = p \<or> is_child (lower (src_path e)) p"
  shows "on_any_event X E e s w = Some (Inr (), s, w)"
proof -
  have "lower (src_path e) = lower p \<or> is_child (lower (src_path e)) (lower p)"
  proof -
    have "lower (src_path e) = lower p" if "lower (src_path e) = p"
    proof -
      from that have "lower p = lower (lower (src_path e))" by simp
      then show ?thesis by (simp add: lower_idem)
    qed
    with assms(2) is_child_lower_parent[of "src_path e" p] show ?thesis by blast
  qed
  with assms(1) have "is_being_downloaded s (src_path e)"
    unfolding is_being_downloaded_def Let_def list_ex_iff by blast
  then show ?thesis by (simp add: on_any_event_def)
qed

text \<open>
  Claim C9 at a concrete event: \<^verbatim>\<open>Docs\<close> is being downloaded, and a file below it, reported
  with another casing, is modified.
\<close>

theorem on_any_event_drops_downloading_witness:
  "''/home/user/Dropbox/Docs''
      \<in> set (queue_downloading (example_state\<lparr>queue_downloading := [''/home/user/Dropbox/Docs'']\<rparr>))
   \<and> is_child (lower (src_path (FileModifiedEvent ''/home/user/Dropbox/docs/A.txt'')))
        (lower ''/home/user/Dropbox/Docs'')
   \<and> on_any_event example_externals (example_env 0 None (\<lambda>p. Inl OtherError))
        (FileModifiedEvent ''/home/user/Dropbox/docs/A.txt'')
        (example_state\<lparr>queue_downloading := [''/home/user/Dropbox/Docs'']\<rparr>) ()
      = Some (Inr (), example_state\<lparr>queue_downloading := [''/home/user/Dropbox/Docs'']\<rparr>, ())"
proof -
  let ?s = "example_state\<lparr>queue_downloading := [''/home/user/Dropbox/Docs'']\<rparr>"
  let ?e = "FileModifiedEvent ''/home/user/Dropbox/docs/A.txt''"
  have h1: "''/home/user/Dropbox/Docs'' \<in> set (queue_downloading ?s)" by simp
  have h2: "is_child (lower (src_path ?e)) (lower ''/home/user/Dropbox/Docs'')" by code_simp
  then have "lower (src_path ?e) = lower ''/home/user/Dropbox/Docs''
      \<or> is_child (lower (src_path ?e)) (lower ''/home/user/Dropbox/Docs'')
      \<or> lower (src_path ?e) = ''/home/user/Dropbox/Docs''
      \<or> is_child (lower (src_path ?e)) ''/home/user/Dropbox/Docs''"
    by (rule disjI2[OF disjI1])
  with h1 have "on_any_event example_externals (example_env 0 None (\<lambda>p. Inl OtherError)) ?e ?s ()
      = Some (Inr (), ?s, ())"
    by (rule on_any_event_drops_downloading)
  with h1 h2 show ?thesis by (intro conjI)
qed

section \<open>Claims about the batches\<close>


text \<open>
  Claim C6. \<^verbatim>\<open>last_sync\<close> is claimed to be set only if every event of the batch was
  applied without a sync error. The code collects the results of the file events only:
  for a batch of one deleted file whose removal on Dropbox raises a \<^verbatim>\<open>SyncError\<close>, the
  error is put into \<^verbatim>\<open>sync_errors\<close>, and \<^verbatim>\<open>last_sync\<close> moves from 100 to the
  \<^verbatim>\<open>local_cursor\<close> 200.
\<close>

theorem apply_local_changes_saves_last_sync_after_failure:
  "map_option (\<lambda>(r, s, w). (r, last_sync s, sync_errors s))
     (apply_local_changes example_externals
        (example_env_rm 0 None (\<lambda>p. Inl OtherError)
           (\<lambda>p. Some (SyncError GenericSyncError (Some p) None)))
        example_handlers [FileDeletedEvent ''/home/user/Dropbox/a.txt''] 200
        (example_state\<lparr>rev_dict_cache := [''/a.txt'' \<mapsto> ''0123456789'']\<rparr>) ())
   = Some (Inr (), 200, [(GenericSyncError, ''/a.txt'', ''/home/user/Dropbox/a.txt'')])
   \<and> last_sync (example_state\<lparr>rev_dict_cache := [''/a.txt'' \<mapsto> ''0123456789'']\<rparr>) = 100"
  by code_simp

end
